theory Spec2Isabelle
  imports Main "HOL-Library.Word" "HOL-Library.Sublist"
begin

section \<open>Values exchanged with the virtualization backend\<close>

text \<open>
  The engine of \<^verbatim>\<open>internal/virter/vm.go\<close> drives a libvirt connection
  (\<^verbatim>\<open>v.libvirt\<close>). The handles it passes around are the plain structs of the
  go-libvirt binding; only the fields the code reads are given a meaning here.
\<close>

type_synonym bytes = "8 word list"

type_synonym IP = "8 word list"

record StoragePool =
  PoolName :: string

record StorageVol =
  VolPool :: string
  VolName :: string
  VolKey :: string

record Domain =
  DomName :: string
  DomID :: "32 word"

record DomainSnapshot =
  SnapName :: string
  SnapDom :: Domain

record Network =
  NetName :: string

record DomainEventLifecycleMsg =
  Dom :: Domain
  Event :: "32 word"
  Detail :: "32 word"

text \<open>\<^verbatim>\<open>libvirt.DomainEventStopped\<close>, the lifecycle kind of a stopped domain.\<close>

definition DomainEventStopped :: "32 word" where
  "DomainEventStopped = 5"

record VMConfig =
  ImageName :: string
  VMName :: string
  VMID :: nat
  MemoryKiB :: "64 word"
  VCPUs :: nat
  SSHPublicKeys :: "string list"

record ProvisionShellStep =
  Script :: string
  Env :: "(string \<times> string) list"

record ProvisionRsyncStep =
  Source :: string
  Dest :: string

type_synonym DockerContainerConfig = string

section \<open>Go errors\<close>

text \<open>
  Modelled from the spec: \<^verbatim>\<open>hasErrorCode\<close>, \<^verbatim>\<open>errNoDomain\<close> and
  \<^verbatim>\<open>errNoStorageVol\<close> are declared outside \<^verbatim>\<open>src/\<close>. The spec says that
  ``not found'' is a distinguished condition for domain and volume lookups, distinct from
  other failures, and that errors are classified by a tag at the boundary. A backend error
  therefore carries an error number: one of the two not-found numbers the code names, or
  any other number.
\<close>

datatype errorNumber = errNoDomain | errNoStorageVol | errOtherNumber nat

text \<open>
  An \<^verbatim>\<open>error\<close> value: an error of the backend with its number, an error of
  another collaborator (template renderer, ISO generator, SSH, file system), a message built
  by \<^verbatim>\<open>fmt.Errorf\<close> without a cause, or one built with a \<^verbatim>\<open>%w\<close> cause. The
  message of \<open>Wrapf m e\<close> is the text \<open>m\<close>, a colon, and the message of \<open>e\<close>.
\<close>

datatype gerror =
    LibvirtError errorNumber
  | ExternalError string
  | Errorf string
  | Wrapf string gerror

text \<open>
  Modelled from the spec: \<^verbatim>\<open>hasErrorCode(err, code)\<close> holds of an error of the
  backend that carries this number, and of nothing else; in particular not of \<^verbatim>\<open>nil\<close>.
\<close>

fun hasErrorCode :: "gerror option \<Rightarrow> errorNumber \<Rightarrow> bool" where
  "hasErrorCode (Some (LibvirtError c)) n = (c = n)"
| "hasErrorCode _ n = False"

section \<open>The backend interface and the collaborators\<close>

text \<open>
  Every operation of the backend takes the backend state \<open>'s\<close> and returns an error
  or a result together with the new state; nothing is assumed about its answers.
\<close>

type_synonym ('a, 's) op = "'s \<Rightarrow> (gerror + 'a) \<times> 's"

record 's LibvirtConnection =
  StoragePoolLookupByName :: "string \<Rightarrow> (StoragePool, 's) op"
  StorageVolLookupByName :: "StoragePool \<Rightarrow> string \<Rightarrow> (StorageVol, 's) op"
  StorageVolGetPath :: "StorageVol \<Rightarrow> (string, 's) op"
  StorageVolCreateXML :: "StoragePool \<Rightarrow> string \<Rightarrow> (StorageVol, 's) op"
  StorageVolUpload :: "StorageVol \<Rightarrow> bytes \<Rightarrow> (unit, 's) op"
  StorageVolDelete :: "StorageVol \<Rightarrow> (unit, 's) op"
  DomainDefineXML :: "string \<Rightarrow> (Domain, 's) op"
  DomainCreate :: "Domain \<Rightarrow> (unit, 's) op"
  DomainLookupByName :: "string \<Rightarrow> (Domain, 's) op"
  DomainIsActive :: "Domain \<Rightarrow> (32 word, 's) op"
  DomainIsPersistent :: "Domain \<Rightarrow> (32 word, 's) op"
  DomainDestroy :: "Domain \<Rightarrow> (unit, 's) op"
  DomainUndefine :: "Domain \<Rightarrow> (unit, 's) op"
  DomainShutdown :: "Domain \<Rightarrow> (unit, 's) op"
  DomainListAllSnapshots :: "Domain \<Rightarrow> (DomainSnapshot list, 's) op"
  DomainSnapshotDelete :: "DomainSnapshot \<Rightarrow> (unit, 's) op"
  LifecycleEvents :: "(unit, 's) op"
  NetworkLookupByName :: "string \<Rightarrow> (Network, 's) op"

text \<open>Values of a template parameter bag (\<^verbatim>\<open>map[string]interface{}\<close>).\<close>

datatype tplval = TString string | TStrings "string list" | TUint64 "64 word" | TUint nat

text \<open>A task handed to \<^verbatim>\<open>errgroup.Group.Go\<close>: what the closure will run.\<close>

datatype task =
    RunSSHCommand string string "(string \<times> string) list"
  | CopierCopy string "string list" string

text \<open>
  The \<^verbatim>\<open>Virter\<close> value: its two configured names, its backend connection, and the
  methods and functions of the repository that \<^verbatim>\<open>vm.go\<close> calls but that are defined in
  files outside \<^verbatim>\<open>src/\<close>. Those are parameters: \<^verbatim>\<open>renderTemplate\<close> and
  \<^verbatim>\<open>qemuMAC\<close> are functions of their arguments, the others act on the backend.
  The libraries \<^verbatim>\<open>vm.go\<close> calls are parameters as well: \<^verbatim>\<open>errgroupWait\<close> stands
  for \<^verbatim>\<open>g.Wait()\<close> on the tasks launched so far, \<^verbatim>\<open>ParsePrivateKey\<close> for
  \<^verbatim>\<open>ssh.ParsePrivateKey\<close>, \<^verbatim>\<open>Glob\<close> for \<^verbatim>\<open>filepath.Glob\<close>.
\<close>

record 's Virter =
  libvirt :: "'s LibvirtConnection"
  storagePoolName :: string
  networkName :: string
  renderTemplate :: "string \<Rightarrow> (string \<times> tplval) list \<Rightarrow> gerror + string"
  qemuMAC :: "nat \<Rightarrow> string"
  addDHCPEntry :: "string \<Rightarrow> nat \<Rightarrow> (IP, 's) op"
  rmDHCPEntry :: "Domain \<Rightarrow> (unit, 's) op"
  getMAC :: "Domain \<Rightarrow> (string, 's) op"
  findIPs :: "Network \<Rightarrow> string \<Rightarrow> (string list, 's) op"
  dockerRun :: "DockerContainerConfig \<Rightarrow> string list \<Rightarrow> bytes \<Rightarrow> (unit, 's) op"
  errgroupWait :: "task list \<Rightarrow> (unit, 's) op"
  ParsePrivateKey :: "bytes \<Rightarrow> gerror + unit"
  Glob :: "string \<Rightarrow> gerror + string list"

section \<open>Recorded executions\<close>

text \<open>
  One constructor per call that leaves \<^verbatim>\<open>vm.go\<close>, with its arguments. The last
  group are the waits of the shutdown monitor and the launches of the provisioning executor.
\<close>

datatype call =
    CStoragePoolLookupByName string
  | CStorageVolLookupByName StoragePool string
  | CStorageVolGetPath StorageVol
  | CStorageVolCreateXML StoragePool string
  | CStorageVolUpload StorageVol bytes
  | CStorageVolDelete StorageVol
  | CDomainDefineXML string
  | CDomainCreate Domain
  | CDomainLookupByName string
  | CDomainIsActive Domain
  | CDomainIsPersistent Domain
  | CDomainDestroy Domain
  | CDomainUndefine Domain
  | CDomainShutdown Domain
  | CDomainListAllSnapshots Domain
  | CDomainSnapshotDelete DomainSnapshot
  | CLifecycleEvents
  | CNetworkLookupByName string
  | CaddDHCPEntry string nat
  | CrmDHCPEntry Domain
  | CgetMAC Domain
  | CfindIPs Network string
  | CWaitPort IP string
  | CdockerRun DockerContainerConfig "string list" bytes
  | CAfter int
  | CRecvEvent DomainEventLifecycleMsg
  | CRecvTimeout
  | CGo task
  | CWait

text \<open>
  What a \<^verbatim>\<open>select\<close> of the shutdown monitor receives next: a lifecycle event from the
  subscription, or the tick of the deadline channel.
\<close>

datatype selected = SelEvent DomainEventLifecycleMsg | SelTimeout

text \<open>
  The world of an execution: the backend state, the calls issued so far in order, and the
  receptions still to come on the channels the shutdown monitor selects on.
\<close>

record 's world =
  backend :: 's
  trace :: "call list"
  pending :: "selected list"

type_synonym ('a, 's) act = "'s world \<Rightarrow> (gerror + 'a) \<times> 's world"

text \<open>Issuing a call: the backend answers and moves on, and the call is recorded.\<close>

definition issue :: "call \<Rightarrow> ('a, 's) op \<Rightarrow> ('a, 's) act" where
  "issue c f w =
     (case f (backend w) of (r, s') \<Rightarrow> (r, w\<lparr>backend := s', trace := trace w @ [c]\<rparr>))"

text \<open>
  The idiom \<^verbatim>\<open>x, err := m(); if err != nil { return wrap(err) }; k(x)\<close>.
\<close>

definition attempt :: "('a, 's) act \<Rightarrow> (gerror \<Rightarrow> gerror) \<Rightarrow> ('a \<Rightarrow> ('b, 's) act) \<Rightarrow> ('b, 's) act" where
  "attempt m wrap k w =
     (case m w of (Inl e, w') \<Rightarrow> (Inl (wrap e), w') | (Inr x, w') \<Rightarrow> k x w')"

text \<open>A call of a function that touches nothing.\<close>

definition pure :: "gerror + 'a \<Rightarrow> ('a, 's) act" where
  "pure r w = (r, w)"

definition succeed :: "'a \<Rightarrow> ('a, 's) act" where
  "succeed x w = (Inr x, w)"

definition fail :: "gerror \<Rightarrow> ('a, 's) act" where
  "fail e w = (Inl e, w)"

section \<open>Naming and templates\<close>

definition templateMetaData :: string where "templateMetaData = ''meta-data''"
definition templateUserData :: string where "templateUserData = ''user-data''"
definition templateCIData :: string where "templateCIData = ''volume-cidata.xml''"
definition templateVMVolume :: string where "templateVMVolume = ''volume-vm.xml''"
definition templateScratchVolume :: string where "templateScratchVolume = ''volume-scratch.xml''"
definition templateVM :: string where "templateVM = ''vm.xml''"

definition ciDataVolumeName :: "string \<Rightarrow> string" where
  "ciDataVolumeName vmName = vmName @ ''-cidata''"

definition scratchVolumeName :: "string \<Rightarrow> string" where
  "scratchVolumeName vmName = vmName @ ''-scratch''"

definition metaData :: "'s Virter \<Rightarrow> string \<Rightarrow> gerror + string" where
  "metaData v vmName = renderTemplate v templateMetaData [(''VMName'', TString vmName)]"

definition userData :: "'s Virter \<Rightarrow> string \<Rightarrow> string list \<Rightarrow> gerror + string" where
  "userData v vmName sshPublicKeys =
     renderTemplate v templateUserData
       [(''VMName'', TString vmName), (''SSHPublicKeys'', TStrings sshPublicKeys)]"

definition ciDataVolumeXML :: "'s Virter \<Rightarrow> string \<Rightarrow> gerror + string" where
  "ciDataVolumeXML v name = renderTemplate v templateCIData [(''VolumeName'', TString name)]"

definition vmVolumeXML :: "'s Virter \<Rightarrow> string \<Rightarrow> string \<Rightarrow> gerror + string" where
  "vmVolumeXML v name backingPath =
     renderTemplate v templateVMVolume
       [(''VolumeName'', TString name), (''BackingPath'', TString backingPath)]"

definition scratchVolumeXML :: "'s Virter \<Rightarrow> string \<Rightarrow> gerror + string" where
  "scratchVolumeXML v name =
     renderTemplate v templateScratchVolume [(''VolumeName'', TString name)]"

definition vmXML :: "'s Virter \<Rightarrow> string \<Rightarrow> string \<Rightarrow> string \<Rightarrow> 64 word \<Rightarrow> nat \<Rightarrow> gerror + string" where
  "vmXML v poolName vmName mac memKiB vcpus =
     renderTemplate v templateVM
       [(''PoolName'', TString poolName), (''VMName'', TString vmName), (''MAC'', TString mac),
        (''MemoryKiB'', TUint64 memKiB), (''VCPUs'', TUint vcpus)]"

section \<open>Run\<close>

text \<open>
  The ISO generator and the port waiter are arguments of \<^verbatim>\<open>VMRun\<close>: \<open>g\<close> is
  \<^verbatim>\<open>g.Generate\<close>, \<open>waiter\<close> is \<^verbatim>\<open>waiter.WaitPort\<close>. Log lines are not modelled.
\<close>

type_synonym ISOGenerator = "(string \<times> bytes) list \<Rightarrow> gerror + bytes"

type_synonym 's PortWaiter = "IP \<Rightarrow> string \<Rightarrow> (unit, 's) op"

text \<open>\<^verbatim>\<open>[]byte(s)\<close> of a string.\<close>

definition bytesOf :: "string \<Rightarrow> bytes" where
  "bytesOf s = map (\<lambda>c. of_nat (of_char c)) s"

definition createCIData :: "'s Virter \<Rightarrow> StoragePool \<Rightarrow> ISOGenerator \<Rightarrow> VMConfig \<Rightarrow> (unit, 's) act" where
  "createCIData v sp g vmConfig =
     (let vmName = VMName vmConfig; sshPublicKeys = SSHPublicKeys vmConfig in
      attempt (pure (metaData v vmName)) (\<lambda>e. e) (\<lambda>metaData.
      attempt (pure (userData v vmName sshPublicKeys)) (\<lambda>e. e) (\<lambda>userData.
      attempt (pure (g [(''meta-data'', bytesOf metaData), (''user-data'', bytesOf userData)]))
        (Wrapf ''failed to generate ISO'') (\<lambda>ciData.
      attempt (pure (ciDataVolumeXML v (ciDataVolumeName vmName))) (\<lambda>e. e) (\<lambda>xml.
      attempt (issue (CStorageVolCreateXML sp xml) (StorageVolCreateXML (libvirt v) sp xml))
        (Wrapf ''could not create cloud-init volume'') (\<lambda>sv.
      attempt (issue (CStorageVolUpload sv ciData) (StorageVolUpload (libvirt v) sv ciData))
        (Wrapf ''failed to transfer cloud-init data to libvirt'') (\<lambda>_.
      succeed ())))))))"

definition createVMVolume :: "'s Virter \<Rightarrow> StoragePool \<Rightarrow> VMConfig \<Rightarrow> (unit, 's) act" where
  "createVMVolume v sp vmConfig =
     (let imageName = ImageName vmConfig; vmName = VMName vmConfig in
      attempt (issue (CStorageVolLookupByName sp imageName)
                 (StorageVolLookupByName (libvirt v) sp imageName))
        (Wrapf ''could not get backing image volume'') (\<lambda>backingVolume.
      attempt (issue (CStorageVolGetPath backingVolume)
                 (StorageVolGetPath (libvirt v) backingVolume))
        (Wrapf ''could not get backing image path'') (\<lambda>backingPath.
      attempt (pure (vmVolumeXML v vmName backingPath)) (\<lambda>e. e) (\<lambda>xml.
      attempt (issue (CStorageVolCreateXML sp xml) (StorageVolCreateXML (libvirt v) sp xml))
        (Wrapf ''could not create VM boot volume'') (\<lambda>_.
      succeed ())))))"

definition createScratchVolume :: "'s Virter \<Rightarrow> StoragePool \<Rightarrow> VMConfig \<Rightarrow> (unit, 's) act" where
  "createScratchVolume v sp vmConfig =
     (let vmName = VMName vmConfig in
      attempt (pure (scratchVolumeXML v (scratchVolumeName vmName))) (\<lambda>e. e) (\<lambda>xml.
      attempt (issue (CStorageVolCreateXML sp xml) (StorageVolCreateXML (libvirt v) sp xml))
        (Wrapf ''could not create scratch volume'') (\<lambda>_.
      succeed ())))"

definition createVM :: "'s Virter \<Rightarrow> StoragePool \<Rightarrow> VMConfig \<Rightarrow> (IP, 's) act" where
  "createVM v sp vmConfig =
     (let vmName = VMName vmConfig; vmID = VMID vmConfig; memKiB = MemoryKiB vmConfig;
          vcpus = VCPUs vmConfig; mac = qemuMAC v vmID in
      attempt (pure (vmXML v (PoolName sp) vmName mac memKiB vcpus)) (\<lambda>e. e) (\<lambda>xml.
      attempt (issue (CDomainDefineXML xml) (DomainDefineXML (libvirt v) xml))
        (Wrapf ''could not define domain'') (\<lambda>d.
      attempt (issue (CaddDHCPEntry mac vmID) (addDHCPEntry v mac vmID)) (\<lambda>e. e) (\<lambda>ip.
      attempt (issue (CDomainCreate d) (DomainCreate (libvirt v) d))
        (Wrapf ''could create create (start) domain'') (\<lambda>_.
      succeed ip)))))"

definition VMRun :: "'s Virter \<Rightarrow> ISOGenerator \<Rightarrow> 's PortWaiter \<Rightarrow> VMConfig \<Rightarrow> bool \<Rightarrow> (unit, 's) act" where
  "VMRun v g waiter vmConfig waitSSH =
     attempt (issue (CStoragePoolLookupByName (storagePoolName v))
                (StoragePoolLookupByName (libvirt v) (storagePoolName v)))
       (Wrapf ''could not get storage pool'') (\<lambda>sp.
     attempt (createVMVolume v sp vmConfig) (\<lambda>e. e) (\<lambda>_.
     attempt (createCIData v sp g vmConfig) (\<lambda>e. e) (\<lambda>_.
     attempt (createScratchVolume v sp vmConfig) (\<lambda>e. e) (\<lambda>_.
     attempt (createVM v sp vmConfig) (\<lambda>e. e) (\<lambda>ip.
     if waitSSH then
       attempt (issue (CWaitPort ip ''ssh'') (waiter ip ''ssh''))
         (Wrapf ''unable to connect to SSH port'') (\<lambda>_.
       succeed ())
     else succeed ())))))"

section \<open>Rm\<close>

fun rmSnapshotsLoop :: "'s Virter \<Rightarrow> DomainSnapshot list \<Rightarrow> (unit, 's) act" where
  "rmSnapshotsLoop v [] = succeed ()"
| "rmSnapshotsLoop v (snapshot # snapshots) =
     attempt (issue (CDomainSnapshotDelete snapshot) (DomainSnapshotDelete (libvirt v) snapshot))
       (Wrapf ''could not delete snapshot'') (\<lambda>_.
     rmSnapshotsLoop v snapshots)"

definition rmSnapshots :: "'s Virter \<Rightarrow> Domain \<Rightarrow> (unit, 's) act" where
  "rmSnapshots v domain =
     attempt (issue (CDomainListAllSnapshots domain) (DomainListAllSnapshots (libvirt v) domain))
       (Wrapf ''could not list snapshots'') (\<lambda>snapshots.
     rmSnapshotsLoop v snapshots)"

text \<open>
  The idiom of \<^verbatim>\<open>rmVolume\<close> and \<^verbatim>\<open>vmRmExceptBoot\<close>:
  \<^verbatim>\<open>x, err := m(); if !hasErrorCode(err, code) { if err != nil { return wrap(err) }; k(x) }\<close>.
  The error code is tested before the error is tested for \<^verbatim>\<open>nil\<close>. When the block is
  skipped, or when \<open>k\<close> does not return from the function, control reaches the
  statement after the block.
\<close>

definition errOf :: "gerror + 'a \<Rightarrow> gerror option" where
  "errOf r = (case r of Inl e \<Rightarrow> Some e | Inr _ \<Rightarrow> None)"

definition tolerate :: "('a, 's) act \<Rightarrow> errorNumber \<Rightarrow> (gerror \<Rightarrow> gerror) \<Rightarrow> ('a \<Rightarrow> (unit, 's) act) \<Rightarrow> (unit, 's) act" where
  "tolerate m code wrap k w =
     (case m w of
        (r, w1) \<Rightarrow>
          if \<not> hasErrorCode (errOf r) code then
            (case r of Inl err \<Rightarrow> (Inl (wrap err), w1) | Inr x \<Rightarrow> k x w1)
          else (Inr (), w1))"

definition rmVolume :: "'s Virter \<Rightarrow> StoragePool \<Rightarrow> string \<Rightarrow> string \<Rightarrow> (unit, 's) act" where
  "rmVolume v sp volumeName debugName =
     tolerate (issue (CStorageVolLookupByName sp volumeName)
                 (StorageVolLookupByName (libvirt v) sp volumeName))
       errNoStorageVol (Wrapf (''could not get '' @ debugName @ '' volume'')) (\<lambda>volume.
     attempt (issue (CStorageVolDelete volume) (StorageVolDelete (libvirt v) volume))
       (Wrapf (''could not delete '' @ debugName @ '' volume'')) (\<lambda>_.
     succeed ()))"

definition vmRmExceptBoot :: "'s Virter \<Rightarrow> StoragePool \<Rightarrow> string \<Rightarrow> (unit, 's) act" where
  "vmRmExceptBoot v sp vmName =
     attempt
       (tolerate (issue (CDomainLookupByName vmName) (DomainLookupByName (libvirt v) vmName))
          errNoDomain (Wrapf ''could not get domain'') (\<lambda>domain.
        attempt (rmSnapshots v domain) (\<lambda>e. e) (\<lambda>_.
        attempt (issue (CDomainIsActive domain) (DomainIsActive (libvirt v) domain))
          (Wrapf ''could not check if domain is active'') (\<lambda>active.
        attempt (issue (CDomainIsPersistent domain) (DomainIsPersistent (libvirt v) domain))
          (Wrapf ''could not check if domain is persistent'') (\<lambda>persistent.
        attempt (issue (CrmDHCPEntry domain) (rmDHCPEntry v domain)) (\<lambda>e. e) (\<lambda>_.
        attempt (if active \<noteq> 0
                 then attempt (issue (CDomainDestroy domain) (DomainDestroy (libvirt v) domain))
                        (Wrapf ''could not destroy domain'') (\<lambda>_. succeed ())
                 else succeed ()) (\<lambda>e. e) (\<lambda>_.
        if persistent \<noteq> 0
        then attempt (issue (CDomainUndefine domain) (DomainUndefine (libvirt v) domain))
               (Wrapf ''could not undefine domain'') (\<lambda>_. succeed ())
        else succeed ())))))))
       (\<lambda>e. e) (\<lambda>_.
     attempt (rmVolume v sp (scratchVolumeName vmName) ''scratch'') (\<lambda>e. e) (\<lambda>_.
     attempt (rmVolume v sp (ciDataVolumeName vmName) ''cloud-init'') (\<lambda>e. e) (\<lambda>_.
     succeed ())))"

definition VMRm :: "'s Virter \<Rightarrow> string \<Rightarrow> (unit, 's) act" where
  "VMRm v vmName =
     attempt (issue (CStoragePoolLookupByName (storagePoolName v))
                (StoragePoolLookupByName (libvirt v) (storagePoolName v)))
       (Wrapf ''could not get storage pool'') (\<lambda>sp.
     attempt (vmRmExceptBoot v sp vmName) (\<lambda>e. e) (\<lambda>_.
     attempt (rmVolume v sp vmName ''boot'') (\<lambda>e. e) (\<lambda>_.
     succeed ())))"

section \<open>Commit and the shutdown monitor\<close>

text \<open>
  The loop \<^verbatim>\<open>for active != 0 { select { ... } }\<close> over the receptions still to come.
  The result is \<open>None\<close> when the loop is still waiting and nothing more arrives: the
  call never returns. Otherwise it is what \<^verbatim>\<open>vmShutdown\<close> returns, with the receptions
  consumed (as recorded calls) and those left.
\<close>

fun waitStopped :: "32 word \<Rightarrow> Domain \<Rightarrow> selected list \<Rightarrow> (gerror + unit) option \<times> call list \<times> selected list" where
  "waitStopped active domain [] = (if active \<noteq> 0 then (None, [], []) else (Some (Inr ()), [], []))"
| "waitStopped active domain (x # rest) =
     (if active \<noteq> 0 then
        (case x of
           SelEvent event \<Rightarrow>
             (case waitStopped
                     (if DomID (Dom event) = DomID domain \<and> Event event = DomainEventStopped
                      then 0 else active) domain rest of
                (r, cs, left) \<Rightarrow> (r, CRecvEvent event # cs, left))
         | SelTimeout \<Rightarrow>
             (Some (Inl (Errorf ''timed out waiting for domain to stop'')), [CRecvTimeout], rest))
      else (Some (Inr ()), [], x # rest))"

text \<open>
  Results of the operations that can wait forever: \<open>None\<close> is a call that never returns.
  \<open>afterNotifier.After(shutdownTimeout)\<close> is recorded as a call; the tick of the channel
  it returns is a \<open>SelTimeout\<close> among the receptions to come.
\<close>

type_synonym 's wait = "'s world \<Rightarrow> (gerror + unit) option \<times> 's world"

definition returning :: "(unit, 's) act \<Rightarrow> 's wait" where
  "returning m w = (case m w of (r, w') \<Rightarrow> (Some r, w'))"

definition vmShutdown :: "'s Virter \<Rightarrow> int \<Rightarrow> Domain \<Rightarrow> 's wait" where
  "vmShutdown v shutdownTimeout domain w =
     (case issue CLifecycleEvents (LifecycleEvents (libvirt v)) w of
        (Inl err, w1) \<Rightarrow> (Some (Inl (Wrapf ''could not start waiting for events'' err)), w1)
      | (Inr _, w1) \<Rightarrow>
     (case issue (CDomainIsActive domain) (DomainIsActive (libvirt v) domain) w1 of
        (Inl err, w2) \<Rightarrow> (Some (Inl (Wrapf ''could not check if domain is active'' err)), w2)
      | (Inr active, w2) \<Rightarrow>
     (case (if active \<noteq> 0
            then attempt (issue (CDomainShutdown domain) (DomainShutdown (libvirt v) domain))
                   (Wrapf ''could not shut down domain'') (\<lambda>_. succeed ())
            else succeed ()) w2 of
        (Inl err, w3) \<Rightarrow> (Some (Inl err), w3)
      | (Inr _, w3) \<Rightarrow>
     (case waitStopped active domain (pending w3) of
        (r, cs, left) \<Rightarrow>
          (r, w3\<lparr>trace := trace w3 @ [CAfter shutdownTimeout] @ cs, pending := left\<rparr>)))))"

definition VMCommit :: "'s Virter \<Rightarrow> string \<Rightarrow> bool \<Rightarrow> int \<Rightarrow> 's wait" where
  "VMCommit v vmName shutdown shutdownTimeout w =
     (let teardown =
        returning
          (attempt (issue (CStoragePoolLookupByName (storagePoolName v))
                      (StoragePoolLookupByName (libvirt v) (storagePoolName v)))
             (Wrapf ''could not get storage pool'') (\<lambda>sp.
           attempt (vmRmExceptBoot v sp vmName) (\<lambda>e. e) (\<lambda>_.
           succeed ())))
      in
      case issue (CDomainLookupByName vmName) (DomainLookupByName (libvirt v) vmName) w of
        (Inl err, w1) \<Rightarrow> (Some (Inl (Wrapf ''could not get domain'' err)), w1)
      | (Inr domain, w1) \<Rightarrow>
          if shutdown then
            (case vmShutdown v shutdownTimeout domain w1 of
               (None, w2) \<Rightarrow> (None, w2)
             | (Some (Inl err), w2) \<Rightarrow> (Some (Inl err), w2)
             | (Some (Inr _), w2) \<Rightarrow> teardown w2)
          else
            (case issue (CDomainIsActive domain) (DomainIsActive (libvirt v) domain) w1 of
               (Inl err, w2) \<Rightarrow>
                 (Some (Inl (Wrapf ''could not check if domain is active'' err)), w2)
             | (Inr active, w2) \<Rightarrow>
                 if active \<noteq> 0 then (Some (Inl (Errorf ''cannot commit a running VM'')), w2)
                 else teardown w2))"

section \<open>The provisioning executor\<close>

text \<open>
  The resolve phase and the launches are modelled. What a launched task does
  (\<^verbatim>\<open>runSSHCommand\<close>, the copier) and the interactive session
  \<^verbatim>\<open>VMSSHSession\<close> are network and terminal input and output, and are left out.
\<close>

definition findVMIP :: "'s Virter \<Rightarrow> Network \<Rightarrow> Domain \<Rightarrow> (string, 's) act" where
  "findVMIP v network domain =
     attempt (issue (CgetMAC domain) (getMAC v domain)) (\<lambda>e. e) (\<lambda>mac.
     attempt (issue (CfindIPs network mac) (findIPs v network mac)) (\<lambda>e. e) (\<lambda>ips.
     if length ips < 1 then fail (Errorf ''no IP found for domain'')
     else succeed (ips ! 0)))"

text \<open>
  The loop of \<^verbatim>\<open>getIPs\<close> over the names left, with the addresses collected so far.
  The Go function returns the addresses collected so far beside an error; every caller
  drops them when the error is not \<^verbatim>\<open>nil\<close>, and so does the model.
\<close>

fun getIPsLoop :: "'s Virter \<Rightarrow> Network \<Rightarrow> string list \<Rightarrow> string list \<Rightarrow> (string list, 's) act" where
  "getIPsLoop v network [] ips = succeed ips"
| "getIPsLoop v network (vmName # vmNames) ips =
     attempt (issue (CDomainLookupByName vmName) (DomainLookupByName (libvirt v) vmName))
       (Wrapf (''could not get domain '' @ [CHR 39] @ vmName @ [CHR 39])) (\<lambda>domain.
     attempt (issue (CDomainIsActive domain) (DomainIsActive (libvirt v) domain))
       (Wrapf (''could not check if domain '' @ [CHR 39] @ vmName @ [CHR 39] @ '' is active''))
       (\<lambda>active.
     if active = 0 then
       fail (Errorf (''cannot exec against VM '' @ [CHR 39] @ vmName @ [CHR 39]
                     @ '' that is not running''))
     else
       attempt (findVMIP v network domain)
         (Wrapf (''could not find IP for VM '' @ [CHR 39] @ vmName @ [CHR 39])) (\<lambda>ip.
       getIPsLoop v network vmNames (ips @ [ip]))))"

definition getIPs :: "'s Virter \<Rightarrow> string list \<Rightarrow> (string list, 's) act" where
  "getIPs v vmNames =
     attempt (issue (CNetworkLookupByName (networkName v))
                (NetworkLookupByName (libvirt v) (networkName v)))
       (Wrapf ''could not get network'') (\<lambda>network.
     getIPsLoop v network vmNames [])"

definition VMExecDocker :: "'s Virter \<Rightarrow> string list \<Rightarrow> DockerContainerConfig \<Rightarrow> bytes \<Rightarrow> (unit, 's) act" where
  "VMExecDocker v vmNames dockerContainerConfig sshPrivateKey =
     attempt (getIPs v vmNames) (\<lambda>e. e) (\<lambda>ips.
     issue (CdockerRun dockerContainerConfig ips sshPrivateKey)
       (dockerRun v dockerContainerConfig ips sshPrivateKey))"

text \<open>
  Only the addresses and the error of \<^verbatim>\<open>getSSHClientConfig\<close> are modelled; the client
  configuration it builds is a constant but for the parsed key.
\<close>

definition getSSHClientConfig :: "'s Virter \<Rightarrow> string list \<Rightarrow> bytes \<Rightarrow> (string list, 's) act" where
  "getSSHClientConfig v vmNames sshPrivateKey =
     attempt (getIPs v vmNames) (\<lambda>e. e) (\<lambda>ips.
     attempt (pure (ParsePrivateKey v sshPrivateKey)) (\<lambda>e. e) (\<lambda>signer.
     succeed ips))"

text \<open>\<^verbatim>\<open>net.JoinHostPort\<close>: a host with a colon is put in brackets.\<close>

definition JoinHostPort :: "string \<Rightarrow> string \<Rightarrow> string" where
  "JoinHostPort host port =
     (if CHR '':'' \<in> set host then ''['' @ host @ '']:'' @ port else host @ '':'' @ port)"

text \<open>
  The loop \<^verbatim>\<open>for _, ip := range ips { g.Go(...) }\<close>: the launches happen in the order
  of the addresses. What the launched tasks do, and in which order they finish, is inside
  \<^verbatim>\<open>errgroupWait\<close>.
\<close>

definition launch :: "task list \<Rightarrow> 's world \<Rightarrow> 's world" where
  "launch tasks w = w\<lparr>trace := trace w @ map CGo tasks\<rparr>"

definition VMExecShell :: "'s Virter \<Rightarrow> string list \<Rightarrow> bytes \<Rightarrow> ProvisionShellStep \<Rightarrow> (unit, 's) act" where
  "VMExecShell v vmNames sshPrivateKey shellStep =
     attempt (getSSHClientConfig v vmNames sshPrivateKey) (\<lambda>e. e) (\<lambda>ips w.
     (let tasks = map (\<lambda>ip. RunSSHCommand (JoinHostPort ip ''22'') (Script shellStep)
                               (Env shellStep)) ips
      in issue CWait (errgroupWait v tasks) (launch tasks w)))"

definition VMExecRsync :: "'s Virter \<Rightarrow> string list \<Rightarrow> ProvisionRsyncStep \<Rightarrow> (unit, 's) act" where
  "VMExecRsync v vmNames rsyncStep =
     attempt (pure (Glob v (Source rsyncStep))) (Wrapf ''failed to parse glob pattern'') (\<lambda>files.
     attempt (getIPs v vmNames) (\<lambda>e. e) (\<lambda>ips w.
     (let tasks = map (\<lambda>ip. CopierCopy ip files (Dest rsyncStep)) ips
      in issue CWait (errgroupWait v tasks) (launch tasks w))))"

section \<open>An in-memory backend\<close>

text \<open>
  A backend to run the engine against: the resources of the spec's data model (pools,
  networks, volumes by name, domains by name with their snapshots, DHCP reservations by MAC)
  and the behaviour of the operations the engine consumes. A lookup of an absent
  domain or volume answers with the not-found number; destroying a shut-off domain,
  undefining a domain that has snapshots and creating a resource twice are errors.
\<close>

datatype runstate = Transient | Running | Shutoff

record memDomain =
  mdState :: runstate
  mdID :: "32 word"
  mdMAC :: string
  mdSnapshots :: "string list"

record mem =
  memPools :: "string set"
  memNetworks :: "string set"
  memVolumes :: "string \<rightharpoonup> bytes"
  memDomains :: "string \<rightharpoonup> memDomain"
  memDHCP :: "string \<rightharpoonup> IP"
  memNextID :: "32 word"

definition otherError :: "nat \<Rightarrow> gerror" where
  "otherError n = LibvirtError (errOtherNumber n)"

definition volHandle :: "StoragePool \<Rightarrow> string \<Rightarrow> StorageVol" where
  "volHandle sp n = \<lparr>VolPool = PoolName sp, VolName = n, VolKey = PoolName sp @ ''/'' @ n\<rparr>"

definition memStoragePoolLookupByName :: "string \<Rightarrow> (StoragePool, mem) op" where
  "memStoragePoolLookupByName n s =
     (if n \<in> memPools s then (Inr \<lparr>PoolName = n\<rparr>, s) else (Inl (otherError 49), s))"

definition memStorageVolLookupByName :: "StoragePool \<Rightarrow> string \<Rightarrow> (StorageVol, mem) op" where
  "memStorageVolLookupByName sp n s =
     (case memVolumes s n of
        None \<Rightarrow> (Inl (LibvirtError errNoStorageVol), s)
      | Some _ \<Rightarrow> (Inr (volHandle sp n), s))"

definition memStorageVolGetPath :: "StorageVol \<Rightarrow> (string, mem) op" where
  "memStorageVolGetPath vol s =
     (case memVolumes s (VolName vol) of
        None \<Rightarrow> (Inl (LibvirtError errNoStorageVol), s)
      | Some _ \<Rightarrow> (Inr (VolKey vol), s))"

definition memStorageVolCreateXML :: "StoragePool \<Rightarrow> string \<Rightarrow> (StorageVol, mem) op" where
  "memStorageVolCreateXML sp xml s =
     (case memVolumes s xml of
        None \<Rightarrow> (Inr (volHandle sp xml), s\<lparr>memVolumes := (memVolumes s)(xml \<mapsto> [])\<rparr>)
      | Some _ \<Rightarrow> (Inl (otherError 90), s))"

definition memStorageVolUpload :: "StorageVol \<Rightarrow> bytes \<Rightarrow> (unit, mem) op" where
  "memStorageVolUpload vol content s =
     (case memVolumes s (VolName vol) of
        None \<Rightarrow> (Inl (LibvirtError errNoStorageVol), s)
      | Some _ \<Rightarrow> (Inr (), s\<lparr>memVolumes := (memVolumes s)(VolName vol \<mapsto> content)\<rparr>))"

definition memStorageVolDelete :: "StorageVol \<Rightarrow> (unit, mem) op" where
  "memStorageVolDelete vol s =
     (case memVolumes s (VolName vol) of
        None \<Rightarrow> (Inl (LibvirtError errNoStorageVol), s)
      | Some _ \<Rightarrow> (Inr (), s\<lparr>memVolumes := (memVolumes s)(VolName vol := None)\<rparr>))"

text \<open>The descriptor of a domain is its name, a blank and its MAC.\<close>

definition memDomainDefineXML :: "string \<Rightarrow> (Domain, mem) op" where
  "memDomainDefineXML xml s =
     (let n = takeWhile (\<lambda>c. c \<noteq> CHR '' '') xml; m = drop (length n + 1) xml in
      case memDomains s n of
        None \<Rightarrow>
          (Inr \<lparr>DomName = n, DomID = - 1\<rparr>,
           s\<lparr>memDomains := (memDomains s)
                (n \<mapsto> \<lparr>mdState = Shutoff, mdID = - 1, mdMAC = m, mdSnapshots = []\<rparr>)\<rparr>)
      | Some _ \<Rightarrow> (Inl (otherError 9), s))"

definition memDomainCreate :: "Domain \<Rightarrow> (unit, mem) op" where
  "memDomainCreate d s =
     (case memDomains s (DomName d) of
        None \<Rightarrow> (Inl (LibvirtError errNoDomain), s)
      | Some e \<Rightarrow>
          if mdState e = Shutoff then
            (Inr (), s\<lparr>memDomains := (memDomains s)
                          (DomName d \<mapsto> e\<lparr>mdState := Running, mdID := memNextID s\<rparr>),
                        memNextID := memNextID s + 1\<rparr>)
          else (Inl (otherError 55), s))"

definition memDomainLookupByName :: "string \<Rightarrow> (Domain, mem) op" where
  "memDomainLookupByName n s =
     (case memDomains s n of
        None \<Rightarrow> (Inl (LibvirtError errNoDomain), s)
      | Some e \<Rightarrow> (Inr \<lparr>DomName = n, DomID = mdID e\<rparr>, s))"

definition memDomainIsActive :: "Domain \<Rightarrow> (32 word, mem) op" where
  "memDomainIsActive d s =
     (case memDomains s (DomName d) of
        None \<Rightarrow> (Inl (LibvirtError errNoDomain), s)
      | Some e \<Rightarrow> (Inr (if mdState e = Shutoff then 0 else 1), s))"

definition memDomainIsPersistent :: "Domain \<Rightarrow> (32 word, mem) op" where
  "memDomainIsPersistent d s =
     (case memDomains s (DomName d) of
        None \<Rightarrow> (Inl (LibvirtError errNoDomain), s)
      | Some e \<Rightarrow> (Inr (if mdState e = Transient then 0 else 1), s))"

definition memDomainDestroy :: "Domain \<Rightarrow> (unit, mem) op" where
  "memDomainDestroy d s =
     (case memDomains s (DomName d) of
        None \<Rightarrow> (Inl (LibvirtError errNoDomain), s)
      | Some e \<Rightarrow>
          (case mdState e of
             Transient \<Rightarrow> (Inr (), s\<lparr>memDomains := (memDomains s)(DomName d := None)\<rparr>)
           | Running \<Rightarrow>
               (Inr (), s\<lparr>memDomains := (memDomains s)
                             (DomName d \<mapsto> e\<lparr>mdState := Shutoff, mdID := - 1\<rparr>)\<rparr>)
           | Shutoff \<Rightarrow> (Inl (otherError 55), s)))"

definition memDomainUndefine :: "Domain \<Rightarrow> (unit, mem) op" where
  "memDomainUndefine d s =
     (case memDomains s (DomName d) of
        None \<Rightarrow> (Inl (LibvirtError errNoDomain), s)
      | Some e \<Rightarrow>
          if mdSnapshots e \<noteq> [] then (Inl (otherError 55), s)
          else
            (case mdState e of
               Transient \<Rightarrow> (Inl (otherError 55), s)
             | Running \<Rightarrow>
                 (Inr (), s\<lparr>memDomains := (memDomains s)
                               (DomName d \<mapsto> e\<lparr>mdState := Transient\<rparr>)\<rparr>)
             | Shutoff \<Rightarrow> (Inr (), s\<lparr>memDomains := (memDomains s)(DomName d := None)\<rparr>)))"

text \<open>A shutdown request is accepted by a running domain; the guest stops later, if at all.\<close>

definition memDomainShutdown :: "Domain \<Rightarrow> (unit, mem) op" where
  "memDomainShutdown d s =
     (case memDomains s (DomName d) of
        None \<Rightarrow> (Inl (LibvirtError errNoDomain), s)
      | Some e \<Rightarrow> if mdState e = Shutoff then (Inl (otherError 55), s) else (Inr (), s))"

definition memDomainListAllSnapshots :: "Domain \<Rightarrow> (DomainSnapshot list, mem) op" where
  "memDomainListAllSnapshots d s =
     (case memDomains s (DomName d) of
        None \<Rightarrow> (Inl (LibvirtError errNoDomain), s)
      | Some e \<Rightarrow> (Inr (map (\<lambda>n. \<lparr>SnapName = n, SnapDom = d\<rparr>) (mdSnapshots e)), s))"

definition memDomainSnapshotDelete :: "DomainSnapshot \<Rightarrow> (unit, mem) op" where
  "memDomainSnapshotDelete snap s =
     (case memDomains s (DomName (SnapDom snap)) of
        None \<Rightarrow> (Inl (LibvirtError errNoDomain), s)
      | Some e \<Rightarrow>
          if SnapName snap \<in> set (mdSnapshots e) then
            (Inr (), s\<lparr>memDomains := (memDomains s)
                          (DomName (SnapDom snap) \<mapsto>
                             e\<lparr>mdSnapshots := removeAll (SnapName snap) (mdSnapshots e)\<rparr>)\<rparr>)
          else (Inl (otherError 72), s))"

definition memLifecycleEvents :: "(unit, mem) op" where
  "memLifecycleEvents s = (Inr (), s)"

definition memNetworkLookupByName :: "string \<Rightarrow> (Network, mem) op" where
  "memNetworkLookupByName n s =
     (if n \<in> memNetworks s then (Inr \<lparr>NetName = n\<rparr>, s) else (Inl (otherError 43), s))"

definition memLibvirt :: "mem LibvirtConnection" where
  "memLibvirt =
     \<lparr>StoragePoolLookupByName = memStoragePoolLookupByName,
      StorageVolLookupByName = memStorageVolLookupByName,
      StorageVolGetPath = memStorageVolGetPath,
      StorageVolCreateXML = memStorageVolCreateXML,
      StorageVolUpload = memStorageVolUpload,
      StorageVolDelete = memStorageVolDelete,
      DomainDefineXML = memDomainDefineXML,
      DomainCreate = memDomainCreate,
      DomainLookupByName = memDomainLookupByName,
      DomainIsActive = memDomainIsActive,
      DomainIsPersistent = memDomainIsPersistent,
      DomainDestroy = memDomainDestroy,
      DomainUndefine = memDomainUndefine,
      DomainShutdown = memDomainShutdown,
      DomainListAllSnapshots = memDomainListAllSnapshots,
      DomainSnapshotDelete = memDomainSnapshotDelete,
      LifecycleEvents = memLifecycleEvents,
      NetworkLookupByName = memNetworkLookupByName\<rparr>"

text \<open>
  Modelled from the spec: the renderer is a function from a template kind and its named
  parameters to a document. Here the document of a volume is its name and the document of
  a domain is its name, a blank and its MAC.
\<close>

definition memRenderTemplate :: "string \<Rightarrow> (string \<times> tplval) list \<Rightarrow> gerror + string" where
  "memRenderTemplate kind params =
     (if kind = templateVM then
        (case (map_of params ''VMName'', map_of params ''MAC'') of
           (Some (TString n), Some (TString m)) \<Rightarrow> Inr (n @ '' '' @ m)
         | _ \<Rightarrow> Inl (ExternalError ''missing parameter''))
      else if kind = templateMetaData \<or> kind = templateUserData then
        (case map_of params ''VMName'' of
           Some (TString n) \<Rightarrow> Inr n
         | _ \<Rightarrow> Inl (ExternalError ''missing parameter''))
      else
        (case map_of params ''VolumeName'' of
           Some (TString n) \<Rightarrow> Inr n
         | _ \<Rightarrow> Inl (ExternalError ''missing parameter'')))"

text \<open>
  Modelled from the spec: \<^verbatim>\<open>qemuMAC\<close> is defined outside \<^verbatim>\<open>src/\<close>; the MAC is a
  fixed prefix followed by the three low bytes of the VM ID, big-endian.
\<close>

definition hex2 :: "nat \<Rightarrow> string" where
  "hex2 n = [''0123456789abcdef'' ! (n div 16 mod 16), ''0123456789abcdef'' ! (n mod 16)]"

definition memQemuMAC :: "nat \<Rightarrow> string" where
  "memQemuMAC vmID =
     ''52:54:00:'' @ hex2 (vmID div 65536 mod 256) @ '':'' @ hex2 (vmID div 256 mod 256)
       @ '':'' @ hex2 (vmID mod 256)"

text \<open>
  Modelled from the spec: \<^verbatim>\<open>addDHCPEntry\<close>, \<^verbatim>\<open>rmDHCPEntry\<close>, \<^verbatim>\<open>getMAC\<close> and
  \<^verbatim>\<open>findIPs\<close> are defined outside \<^verbatim>\<open>src/\<close>. Binding creates the reservation of a
  MAC and fails if it cannot be created; unbinding reads the MAC off the domain and removes the
  reservation, an absent reservation being a success; resolving returns the addresses leased
  to the MAC.
\<close>

definition memAddDHCPEntry :: "string \<Rightarrow> nat \<Rightarrow> (IP, mem) op" where
  "memAddDHCPEntry m vmID s =
     (case memDHCP s m of
        None \<Rightarrow>
          (let ip = [192, 168, 122, of_nat vmID] in
           (Inr ip, s\<lparr>memDHCP := (memDHCP s)(m \<mapsto> ip)\<rparr>))
      | Some _ \<Rightarrow> (Inl (otherError 55), s))"

definition memRmDHCPEntry :: "Domain \<Rightarrow> (unit, mem) op" where
  "memRmDHCPEntry d s =
     (case memDomains s (DomName d) of
        None \<Rightarrow> (Inl (LibvirtError errNoDomain), s)
      | Some e \<Rightarrow> (Inr (), s\<lparr>memDHCP := (memDHCP s)(mdMAC e := None)\<rparr>))"

definition memGetMAC :: "Domain \<Rightarrow> (string, mem) op" where
  "memGetMAC d s =
     (case memDomains s (DomName d) of
        None \<Rightarrow> (Inl (LibvirtError errNoDomain), s)
      | Some e \<Rightarrow> (Inr (mdMAC e), s))"

definition showByte :: "8 word \<Rightarrow> string" where
  "showByte b =
     (let n = unat b; d = (\<lambda>k. ''0123456789'' ! k) in
      if n < 10 then [d n]
      else if n < 100 then [d (n div 10), d (n mod 10)]
      else [d (n div 100), d (n div 10 mod 10), d (n mod 10)])"

fun showIP :: "IP \<Rightarrow> string" where
  "showIP [] = []"
| "showIP [b] = showByte b"
| "showIP (b # bs) = showByte b @ ''.'' @ showIP bs"

definition memFindIPs :: "Network \<Rightarrow> string \<Rightarrow> (string list, mem) op" where
  "memFindIPs network m s =
     (case memDHCP s m of None \<Rightarrow> (Inr [], s) | Some ip \<Rightarrow> (Inr [showIP ip], s))"

text \<open>The other collaborators of the in-memory setting always succeed and change nothing.\<close>

definition memVirter :: "mem Virter" where
  "memVirter =
     \<lparr>libvirt = memLibvirt,
      storagePoolName = ''default'',
      networkName = ''default'',
      renderTemplate = memRenderTemplate,
      qemuMAC = memQemuMAC,
      addDHCPEntry = memAddDHCPEntry,
      rmDHCPEntry = memRmDHCPEntry,
      getMAC = memGetMAC,
      findIPs = memFindIPs,
      dockerRun = (\<lambda>config ips key s. (Inr (), s)),
      errgroupWait = (\<lambda>tasks s. (Inr (), s)),
      ParsePrivateKey = (\<lambda>key. Inr ()),
      Glob = (\<lambda>pattern. Inr [pattern])\<rparr>"

definition memISO :: ISOGenerator where
  "memISO files = Inr (concat (map snd files))"

definition memWaiter :: "mem PortWaiter" where
  "memWaiter ip port s = (Inr (), s)"

text \<open>A host with one pool, one network and the base image \<open>base\<close>, before any run.\<close>

definition memHost :: mem where
  "memHost =
     \<lparr>memPools = {''default''}, memNetworks = {''default''},
      memVolumes = [''base'' \<mapsto> []], memDomains = Map.empty, memDHCP = Map.empty,
      memNextID = 1\<rparr>"

definition start :: "'s \<Rightarrow> selected list \<Rightarrow> 's world" where
  "start s receptions = \<lparr>backend = s, trace = [], pending = receptions\<rparr>"

definition vm1 :: VMConfig where
  "vm1 = \<lparr>ImageName = ''base'', VMName = ''vm1'', VMID = 7, MemoryKiB = 1048576, VCPUs = 1,
          SSHPublicKeys = [''ssh-rsa AAAA'']\<rparr>"

text \<open>The host after \<open>vm1\<close> has been run on it.\<close>

definition memAfterRun :: mem where
  "memAfterRun =
     \<lparr>memPools = {''default''}, memNetworks = {''default''},
      memVolumes = [''base'' \<mapsto> [], ''vm1'' \<mapsto> [],
                    ''vm1-cidata'' \<mapsto> [118, 109, 49, 118, 109, 49], ''vm1-scratch'' \<mapsto> []],
      memDomains = [''vm1'' \<mapsto> \<lparr>mdState = Running, mdID = 1, mdMAC = ''52:54:00:00:00:07'',
                                  mdSnapshots = []\<rparr>],
      memDHCP = [''52:54:00:00:00:07'' \<mapsto> [192, 168, 122, 7]],
      memNextID = 2\<rparr>"

text \<open>The same host with a second machine \<open>vm2\<close> that is shut off and has a snapshot.\<close>

definition memTwo :: mem where
  "memTwo =
     \<lparr>memPools = {''default''}, memNetworks = {''default''},
      memVolumes = [''base'' \<mapsto> [], ''vm1'' \<mapsto> [],
                    ''vm1-cidata'' \<mapsto> [118, 109, 49, 118, 109, 49], ''vm1-scratch'' \<mapsto> [],
                    ''vm2'' \<mapsto> [], ''vm2-cidata'' \<mapsto> [], ''vm2-scratch'' \<mapsto> []],
      memDomains = [''vm1'' \<mapsto> \<lparr>mdState = Running, mdID = 1, mdMAC = ''52:54:00:00:00:07'',
                                  mdSnapshots = []\<rparr>,
                    ''vm2'' \<mapsto> \<lparr>mdState = Shutoff, mdID = - 1, mdMAC = ''52:54:00:00:00:08'',
                                  mdSnapshots = [''s1'']\<rparr>],
      memDHCP = [''52:54:00:00:00:07'' \<mapsto> [192, 168, 122, 7],
                 ''52:54:00:00:00:08'' \<mapsto> [192, 168, 122, 8]],
      memNextID = 2\<rparr>"

section \<open>Properties of recorded executions\<close>

text \<open>The three calls of the define, bind, start sequence.\<close>

fun isDefineBindStart :: "call \<Rightarrow> bool" where
  "isDefineBindStart (CDomainDefineXML xml) = True"
| "isDefineBindStart (CaddDHCPEntry m vmID) = True"
| "isDefineBindStart (CDomainCreate d) = True"
| "isDefineBindStart c = False"

text \<open>The calls of the resolve phase: lookups and queries, nothing that launches work.\<close>

fun isResolveCall :: "call \<Rightarrow> bool" where
  "isResolveCall (CNetworkLookupByName n) = True"
| "isResolveCall (CDomainLookupByName n) = True"
| "isResolveCall (CDomainIsActive d) = True"
| "isResolveCall (CgetMAC d) = True"
| "isResolveCall (CfindIPs network m) = True"
| "isResolveCall c = False"

text \<open>
  The test of the shutdown monitor on a received event:
  \<^verbatim>\<open>event.Dom.ID == domain.ID && event.Event == int32(libvirt.DomainEventStopped)\<close>.
\<close>

definition stoppedEventFor :: "Domain \<Rightarrow> DomainEventLifecycleMsg \<Rightarrow> bool" where
  "stoppedEventFor domain event \<longleftrightarrow>
     DomID (Dom event) = DomID domain \<and> Event event = DomainEventStopped"

text \<open>
  \<open>produces Q m\<close>: every execution of \<open>m\<close> appends to the record a list of calls that
  satisfies \<open>Q\<close>. \<open>relates R m\<close>: every execution of \<open>m\<close> takes the backend from a
  state to one that \<open>R\<close> relates to it.
\<close>

definition produces :: "(call list \<Rightarrow> bool) \<Rightarrow> ('s world \<Rightarrow> 'r \<times> 's world) \<Rightarrow> bool" where
  "produces Q m \<longleftrightarrow>
     (\<forall>w r w'. m w = (r, w') \<longrightarrow> (\<exists>tr. trace w' = trace w @ tr \<and> Q tr))"

definition relates :: "('s \<Rightarrow> 's \<Rightarrow> bool) \<Rightarrow> ('s world \<Rightarrow> 'r \<times> 's world) \<Rightarrow> bool" where
  "relates R m \<longleftrightarrow> (\<forall>w r w'. m w = (r, w') \<longrightarrow> R (backend w) (backend w'))"

definition composable :: "(call list \<Rightarrow> bool) \<Rightarrow> bool" where
  "composable Q \<longleftrightarrow> Q [] \<and> (\<forall>a b. Q a \<longrightarrow> Q b \<longrightarrow> Q (a @ b))"

definition defineBindStart :: "'s Virter \<Rightarrow> VMConfig \<Rightarrow> call list \<Rightarrow> bool" where
  "defineBindStart v vmConfig tr \<longleftrightarrow>
     (\<exists>xml d. prefix tr [CDomainDefineXML xml,
                          CaddDHCPEntry (qemuMAC v (VMID vmConfig)) (VMID vmConfig),
                          CDomainCreate d])"

definition defineBindStartAmong :: "'s Virter \<Rightarrow> VMConfig \<Rightarrow> call list \<Rightarrow> bool" where
  "defineBindStartAmong v vmConfig tr \<longleftrightarrow> defineBindStart v vmConfig (filter isDefineBindStart tr)"


text \<open>The volume \<open>n\<close> of the in-memory backend is the same before and after.\<close>

definition keepsVolume :: "string \<Rightarrow> mem \<Rightarrow> mem \<Rightarrow> bool" where
  "keepsVolume n s s' \<longleftrightarrow> memVolumes s' n = memVolumes s n"



text \<open>
  Variants of the in-memory setting in which one step of the address resolution fails: the
  activity query, the reading of the MAC, the query of the leases; and the host after the run
  of \<open>vm1\<close> with its DHCP reservation lost.
\<close>

definition memNoActivity :: "mem Virter" where
  "memNoActivity =
     memVirter\<lparr>libvirt := memLibvirt\<lparr>DomainIsActive := (\<lambda>d s. (Inl (otherError 1), s))\<rparr>\<rparr>"

definition memNoMAC :: "mem Virter" where
  "memNoMAC = memVirter\<lparr>getMAC := (\<lambda>d s. (Inl (ExternalError ''no interface''), s))\<rparr>"

definition memNoLeases :: "mem Virter" where
  "memNoLeases =
     memVirter\<lparr>findIPs := (\<lambda>network m s. (Inl (ExternalError ''leases unavailable''), s))\<rparr>"

definition memNoKey :: "mem Virter" where
  "memNoKey = memVirter\<lparr>ParsePrivateKey := (\<lambda>key. Inl (ExternalError ''no key found''))\<rparr>"

definition memUnleased :: mem where
  "memUnleased = memAfterRun\<lparr>memDHCP := Map.empty\<rparr>"

section \<open>Unfolding the engine and the in-memory backend\<close>

lemmas engine_defs =
  VMRun_def createVM_def createVMVolume_def createCIData_def createScratchVolume_def
  metaData_def userData_def ciDataVolumeXML_def vmVolumeXML_def scratchVolumeXML_def vmXML_def
  templateMetaData_def templateUserData_def templateCIData_def templateVMVolume_def
  templateScratchVolume_def templateVM_def ciDataVolumeName_def scratchVolumeName_def
  bytesOf_def attempt_def issue_def pure_def succeed_def fail_def tolerate_def
  VMRm_def vmRmExceptBoot_def rmVolume_def rmSnapshots_def errOf_def
  VMCommit_def vmShutdown_def returning_def
  getIPs_def findVMIP_def VMExecDocker_def VMExecShell_def VMExecRsync_def
  getSSHClientConfig_def JoinHostPort_def launch_def DomainEventStopped_def Let_def

lemmas mem_defs =
  memVirter_def memLibvirt_def memStoragePoolLookupByName_def memStorageVolLookupByName_def
  memStorageVolGetPath_def memStorageVolCreateXML_def memStorageVolUpload_def
  memStorageVolDelete_def memDomainDefineXML_def memDomainCreate_def memDomainLookupByName_def
  memDomainIsActive_def memDomainIsPersistent_def memDomainDestroy_def memDomainUndefine_def
  memDomainShutdown_def memDomainListAllSnapshots_def memDomainSnapshotDelete_def
  memLifecycleEvents_def memNetworkLookupByName_def memRenderTemplate_def hex2_def
  memQemuMAC_def memAddDHCPEntry_def memRmDHCPEntry_def memGetMAC_def showByte_def
  memFindIPs_def memISO_def memWaiter_def otherError_def volHandle_def

lemmas host_defs = memHost_def memAfterRun_def memTwo_def start_def vm1_def

section \<open>Composing executions\<close>

lemma attempt_Inr:
  "attempt m wrap k w = (Inr y, w') \<longleftrightarrow> (\<exists>x w1. m w = (Inr x, w1) \<and> k x w1 = (Inr y, w'))"
  by (auto simp: attempt_def split: prod.splits sum.splits)

lemma attempt_assoc:
  "attempt (attempt m f k) (\<lambda>e. e) h = attempt m f (\<lambda>x. attempt (k x) (\<lambda>e. e) h)"
  by (rule ext) (simp add: attempt_def split: prod.splits sum.splits)

lemma attempt_succeed: "attempt (succeed x) f k = k x"
  by (rule ext) (simp add: attempt_def succeed_def)

lemma attempt_fail: "attempt (fail e) (\<lambda>e. e) k = fail e"
  by (rule ext) (simp add: attempt_def fail_def)

lemma composable_list_all: "composable (list_all P)"
  by (simp add: composable_def)

lemma producesD:
  "produces Q m \<Longrightarrow> m w = (r, w') \<Longrightarrow> \<exists>tr. trace w' = trace w @ tr \<and> Q tr"
  unfolding produces_def by blast

lemma produces_issue: "Q [c] \<Longrightarrow> produces Q (issue c f)"
  by (auto simp: produces_def issue_def split: prod.splits)

lemma produces_pure: "composable Q \<Longrightarrow> produces Q (pure r)"
  by (auto simp: produces_def pure_def composable_def)

lemma produces_succeed: "composable Q \<Longrightarrow> produces Q (succeed x)"
  by (auto simp: produces_def succeed_def composable_def)

lemma produces_fail: "composable Q \<Longrightarrow> produces Q (fail e)"
  by (auto simp: produces_def fail_def composable_def)

lemma produces_attempt2:
  assumes ab: "\<And>a b. Q1 a \<Longrightarrow> Q2 b \<Longrightarrow> Q (a @ b)" and a: "\<And>a. Q1 a \<Longrightarrow> Q a"
    and m: "produces Q1 m" and k: "\<And>x. produces Q2 (k x)"
  shows "produces Q (attempt m wrap k)"
  unfolding produces_def
proof (intro allI impI)
  fix w r w'
  assume run: "attempt m wrap k w = (r, w')"
  obtain r1 w1 where m1: "m w = (r1, w1)" by (cases "m w")
  from producesD [OF m m1] obtain tr1
    where t1: "trace w1 = trace w @ tr1" "Q1 tr1"
    by blast
  show "\<exists>tr. trace w' = trace w @ tr \<and> Q tr"
  proof (cases r1)
    case (Inl e)
    with run m1 have "w' = w1" by (simp add: attempt_def)
    with t1 a show ?thesis by auto
  next
    case (Inr x)
    with run m1 have "k x w1 = (r, w')" by (simp add: attempt_def)
    from producesD [OF k this] obtain tr2
      where t2: "trace w' = trace w1 @ tr2" "Q2 tr2"
      by blast
    from ab t1 t2 have "Q (tr1 @ tr2)" by simp
    with t1 t2 show ?thesis by auto
  qed
qed

lemma produces_attempt:
  assumes Q: "composable Q" and m: "produces Q m" and k: "\<And>x. produces Q (k x)"
  shows "produces Q (attempt m wrap k)"
  using Q by (intro produces_attempt2 [where ?Q1.0 = Q and ?Q2.0 = Q] m k)
    (auto simp: composable_def)

lemma produces_tolerate:
  assumes Q: "composable Q" and m: "produces Q m" and k: "\<And>x. produces Q (k x)"
  shows "produces Q (tolerate m code wrap k)"
  unfolding produces_def
proof (intro allI impI)
  fix w r w'
  assume run: "tolerate m code wrap k w = (r, w')"
  obtain r1 w1 where m1: "m w = (r1, w1)" by (cases "m w")
  from producesD [OF m m1] obtain tr1
    where t1: "trace w1 = trace w @ tr1" "Q tr1"
    by blast
  show "\<exists>tr. trace w' = trace w @ tr \<and> Q tr"
  proof (cases "\<exists>x. r1 = Inr x \<and> \<not> hasErrorCode (errOf r1) code")
    case True
    then obtain x where "r1 = Inr x" and "\<not> hasErrorCode (errOf r1) code" by blast
    with run m1 have "k x w1 = (r, w')" by (simp add: tolerate_def)
    from producesD [OF k this] obtain tr2
      where t2: "trace w' = trace w1 @ tr2" "Q tr2"
      by blast
    from Q t1 t2 have "Q (tr1 @ tr2)" by (simp add: composable_def)
    with t1 t2 show ?thesis by auto
  next
    case False
    with run m1 have "w' = w1"
      by (cases r1) (auto simp: tolerate_def split: if_splits)
    with t1 show ?thesis by auto
  qed
qed

lemma produces_if:
  "produces Q a \<Longrightarrow> produces Q b \<Longrightarrow> produces Q (if c then a else b)"
  by simp

lemmas produces_intros =
  produces_attempt produces_tolerate produces_issue produces_pure produces_succeed
  produces_fail produces_if

section \<open>Run: define, bind, start\<close>

lemma createVMVolume_calls:
  "produces (list_all (\<lambda>c. \<not> isDefineBindStart c)) (createVMVolume v sp vmConfig)"
  unfolding createVMVolume_def Let_def
  by (intro produces_intros composable_list_all) simp_all

lemma createCIData_calls:
  "produces (list_all (\<lambda>c. \<not> isDefineBindStart c)) (createCIData v sp g vmConfig)"
  unfolding createCIData_def Let_def
  by (intro produces_intros composable_list_all) simp_all

lemma createScratchVolume_calls:
  "produces (list_all (\<lambda>c. \<not> isDefineBindStart c)) (createScratchVolume v sp vmConfig)"
  unfolding createScratchVolume_def Let_def
  by (intro produces_intros composable_list_all) simp_all

lemma createVM_calls: "produces (defineBindStart v vmConfig) (createVM v sp vmConfig)"
  unfolding produces_def createVM_def Let_def defineBindStart_def
  by (auto simp: attempt_def issue_def pure_def succeed_def split: prod.splits sum.splits)

lemma among_left:
  "list_all (\<lambda>c. \<not> isDefineBindStart c) a \<Longrightarrow> defineBindStartAmong v vmConfig b
     \<Longrightarrow> defineBindStartAmong v vmConfig (a @ b)"
  by (simp add: defineBindStartAmong_def list_all_iff)

lemma among_right:
  assumes a: "defineBindStart v vmConfig a" and b: "list_all (\<lambda>c. \<not> isDefineBindStart c) b"
  shows "defineBindStartAmong v vmConfig (a @ b)"
proof -
  from a obtain xml d where p: "prefix a [CDomainDefineXML xml,
        CaddDHCPEntry (qemuMAC v (VMID vmConfig)) (VMID vmConfig), CDomainCreate d]"
    by (auto simp: defineBindStart_def)
  then have "set a \<subseteq> {CDomainDefineXML xml,
        CaddDHCPEntry (qemuMAC v (VMID vmConfig)) (VMID vmConfig), CDomainCreate d}"
    using set_mono_prefix by fastforce
  then have "filter isDefineBindStart a = a"
    by (intro filter_True) auto
  with a b show ?thesis
    by (simp add: defineBindStartAmong_def list_all_iff)
qed

lemma among_none:
  "list_all (\<lambda>c. \<not> isDefineBindStart c) a \<Longrightarrow> defineBindStartAmong v vmConfig a"
  by (simp add: defineBindStartAmong_def defineBindStart_def list_all_iff)

lemma among_only: "defineBindStart v vmConfig a \<Longrightarrow> defineBindStartAmong v vmConfig a"
  using among_right [of v vmConfig a "[]"] by simp

lemma produces_before:
  assumes "produces (list_all (\<lambda>c. \<not> isDefineBindStart c)) m"
    and "\<And>x. produces (defineBindStartAmong v vmConfig) (k x)"
  shows "produces (defineBindStartAmong v vmConfig) (attempt m wrap k)"
  by (rule produces_attempt2 [where ?Q1.0 = "list_all (\<lambda>c. \<not> isDefineBindStart c)"
        and ?Q2.0 = "defineBindStartAmong v vmConfig"])
    (auto intro: among_left among_none assms)

lemma produces_after:
  assumes "produces (defineBindStart v vmConfig) m"
    and "\<And>x. produces (list_all (\<lambda>c. \<not> isDefineBindStart c)) (k x)"
  shows "produces (defineBindStartAmong v vmConfig) (attempt m wrap k)"
  by (rule produces_attempt2 [where ?Q1.0 = "defineBindStart v vmConfig"
        and ?Q2.0 = "list_all (\<lambda>c. \<not> isDefineBindStart c)"])
    (auto intro: among_right among_only assms)

lemma VMRun_calls:
  "produces (defineBindStartAmong v vmConfig) (VMRun v g waiter vmConfig waitSSH)"
  unfolding VMRun_def
  apply (rule produces_before, rule produces_issue, simp)
  apply (rule produces_before, rule createVMVolume_calls)
  apply (rule produces_before, rule createCIData_calls)
  apply (rule produces_before, rule createScratchVolume_calls)
  apply (rule produces_after, rule createVM_calls)
  apply (intro produces_intros composable_list_all; simp)
  done

lemma run_vm1:
  "VMRun memVirter memISO memWaiter vm1 True (start memHost []) =
     (Inr (),
      \<lparr>backend = memAfterRun,
       trace =
         [CStoragePoolLookupByName ''default'',
          CStorageVolLookupByName \<lparr>PoolName = ''default''\<rparr> ''base'',
          CStorageVolGetPath
            \<lparr>VolPool = ''default'', VolName = ''base'', VolKey = ''default/base''\<rparr>,
          CStorageVolCreateXML \<lparr>PoolName = ''default''\<rparr> ''vm1'',
          CStorageVolCreateXML \<lparr>PoolName = ''default''\<rparr> ''vm1-cidata'',
          CStorageVolUpload
            \<lparr>VolPool = ''default'', VolName = ''vm1-cidata'', VolKey = ''default/vm1-cidata''\<rparr>
            [118, 109, 49, 118, 109, 49],
          CStorageVolCreateXML \<lparr>PoolName = ''default''\<rparr> ''vm1-scratch'',
          CDomainDefineXML ''vm1 52:54:00:00:00:07'',
          CaddDHCPEntry ''52:54:00:00:00:07'' 7,
          CDomainCreate \<lparr>DomName = ''vm1'', DomID = - 1\<rparr>,
          CWaitPort [192, 168, 122, 7] ''ssh''],
       pending = []\<rparr>)"
  by (simp add: engine_defs mem_defs host_defs)

text \<open>
  C1. In every execution of \<open>VMRun\<close> the calls that define the domain, add the DHCP
  reservation and start the domain form an initial part of the sequence: define, then the
  DHCP add for the MAC derived from the VM ID, then start. An execution that reaches the
  start has issued exactly these three, in this order: the DHCP add is neither before the
  define nor after the start.
\<close>

theorem run_define_bind_start:
  assumes "VMRun v g waiter vmConfig waitSSH w = (r, w')"
  shows "\<exists>tr xml d. trace w' = trace w @ tr
           \<and> prefix (filter isDefineBindStart tr)
                [CDomainDefineXML xml,
                 CaddDHCPEntry (qemuMAC v (VMID vmConfig)) (VMID vmConfig),
                 CDomainCreate d]
           \<and> ((\<exists>d'. CDomainCreate d' \<in> set tr) \<longrightarrow>
                filter isDefineBindStart tr =
                  [CDomainDefineXML xml,
                   CaddDHCPEntry (qemuMAC v (VMID vmConfig)) (VMID vmConfig),
                   CDomainCreate d])"
proof -
  from producesD [OF VMRun_calls assms] obtain tr xml d
    where tr: "trace w' = trace w @ tr"
      and p: "prefix (filter isDefineBindStart tr)
                [CDomainDefineXML xml,
                 CaddDHCPEntry (qemuMAC v (VMID vmConfig)) (VMID vmConfig),
                 CDomainCreate d]"
    by (auto simp: defineBindStartAmong_def defineBindStart_def)
  have "filter isDefineBindStart tr =
          [CDomainDefineXML xml, CaddDHCPEntry (qemuMAC v (VMID vmConfig)) (VMID vmConfig),
           CDomainCreate d]" if "CDomainCreate d' \<in> set tr" for d'
  proof -
    define fl where "fl = filter isDefineBindStart tr"
    from that have "CDomainCreate d' \<in> set fl" by (simp add: fl_def)
    moreover from p have "prefix fl [CDomainDefineXML xml,
        CaddDHCPEntry (qemuMAC v (VMID vmConfig)) (VMID vmConfig), CDomainCreate d]"
      by (simp add: fl_def)
    ultimately have "fl = [CDomainDefineXML xml,
        CaddDHCPEntry (qemuMAC v (VMID vmConfig)) (VMID vmConfig), CDomainCreate d]"
      by (auto simp: prefix_Cons split: list.splits)
    then show ?thesis by (simp add: fl_def)
  qed
  with tr p show ?thesis by blast
qed

theorem run_define_bind_start_witness:
  "fst (VMRun memVirter memISO memWaiter vm1 True (start memHost [])) = Inr ()
   \<and> CDomainCreate \<lparr>DomName = ''vm1'', DomID = - 1\<rparr>
       \<in> set (trace (snd (VMRun memVirter memISO memWaiter vm1 True (start memHost []))))
   \<and> filter isDefineBindStart
         (trace (snd (VMRun memVirter memISO memWaiter vm1 True (start memHost [])))) =
       [CDomainDefineXML ''vm1 52:54:00:00:00:07'',
        CaddDHCPEntry ''52:54:00:00:00:07'' 7,
        CDomainCreate \<lparr>DomName = ''vm1'', DomID = - 1\<rparr>]"
  using run_define_bind_start [OF run_vm1]
  by (simp add: run_vm1)

section \<open>Commit and the shutdown monitor\<close>

lemma waitStopped_inactive: "waitStopped 0 domain xs = (Some (Inr ()), [], xs)"
  by (cases xs) simp_all

lemma waitStopped_others:
  assumes "active \<noteq> 0" and "\<forall>e \<in> set others. \<not> stoppedEventFor domain e"
  shows "waitStopped active domain (map SelEvent others @ xs) =
           (case waitStopped active domain xs of
              (r, cs, left) \<Rightarrow> (r, map CRecvEvent others @ cs, left))"
  using assms by (induction others) (auto simp: stoppedEventFor_def split: prod.splits)

lemma waitStopped_stopped:
  assumes "active \<noteq> 0" and "\<forall>e \<in> set others. \<not> stoppedEventFor domain e"
    and "stoppedEventFor domain event"
  shows "waitStopped active domain (map SelEvent others @ SelEvent event # rest) =
           (Some (Inr ()), map CRecvEvent others @ [CRecvEvent event], rest)"
  using assms by (simp add: waitStopped_others waitStopped_inactive stoppedEventFor_def)

lemma waitStopped_timeout:
  assumes "active \<noteq> 0" and "\<forall>e \<in> set others. \<not> stoppedEventFor domain e"
  shows "waitStopped active domain (map SelEvent others @ SelTimeout # rest) =
           (Some (Inl (Errorf ''timed out waiting for domain to stop'')),
            map CRecvEvent others @ [CRecvTimeout], rest)"
  using assms by (simp add: waitStopped_others)

lemma waitStopped_starved:
  assumes "active \<noteq> 0" and "\<forall>e \<in> set others. \<not> stoppedEventFor domain e"
  shows "waitStopped active domain (map SelEvent others) = (None, map CRecvEvent others, [])"
  using assms waitStopped_others [of active others domain "[]"] by simp

lemma vmShutdown_active:
  assumes "LifecycleEvents (libvirt v) (backend w) = (Inr u, s1)"
    and "DomainIsActive (libvirt v) domain s1 = (Inr active, s2)"
    and "active \<noteq> 0"
    and "DomainShutdown (libvirt v) domain s2 = (Inr u', s3)"
  shows "vmShutdown v shutdownTimeout domain w =
           (case waitStopped active domain (pending w) of
              (r, cs, left) \<Rightarrow>
                (r, w\<lparr>backend := s3,
                      trace := trace w @ [CLifecycleEvents, CDomainIsActive domain,
                                 CDomainShutdown domain, CAfter shutdownTimeout] @ cs,
                      pending := left\<rparr>))"
  using assms
  by (simp add: vmShutdown_def issue_def succeed_def attempt_def split: prod.splits)

lemma vmShutdown_subscribes_first:
  assumes "vmShutdown v shutdownTimeout domain w = (r, w')"
  shows "\<exists>tr. trace w' = trace w @ CLifecycleEvents # tr
           \<and> (tr = [] \<or> (\<exists>tr'. tr = CDomainIsActive domain # tr'
                            \<and> CLifecycleEvents \<notin> set tr' \<and> CDomainIsActive domain \<notin> set tr'))"
proof -
  have recv: "CLifecycleEvents \<notin> set cs \<and> CDomainIsActive domain \<notin> set cs"
    if "waitStopped active domain xs = (r0, cs, left)" for active xs r0 cs left
    using that
    by (induction active domain xs arbitrary: r0 cs left rule: waitStopped.induct)
      (auto split: if_splits selected.splits prod.splits)
  from assms show ?thesis
    unfolding vmShutdown_def
    by (auto simp: issue_def attempt_def succeed_def dest: recv
        split: prod.splits sum.splits if_splits)
qed

text \<open>
  C3. When the lookup finds the domain and the backend reports it active, \<open>VMCommit\<close>
  without shutdown returns the error ``cannot commit a running VM''. The only calls it has
  issued are the lookup and the activity query: no snapshot is deleted, no DHCP entry removed,
  no domain destroyed or undefined and no volume deleted.
\<close>

theorem commit_running_refused:
  assumes "DomainLookupByName (libvirt v) vmName (backend w) = (Inr domain, s1)"
    and "DomainIsActive (libvirt v) domain s1 = (Inr active, s2)"
    and "active \<noteq> 0"
  shows "VMCommit v vmName False shutdownTimeout w =
           (Some (Inl (Errorf ''cannot commit a running VM'')),
            w\<lparr>backend := s2,
              trace := trace w @ [CDomainLookupByName vmName, CDomainIsActive domain]\<rparr>)"
  using assms by (simp add: VMCommit_def issue_def)

theorem commit_running_refused_witness:
  "DomainLookupByName (libvirt memVirter) ''vm1'' (backend (start memAfterRun [])) =
     (Inr \<lparr>DomName = ''vm1'', DomID = 1\<rparr>, memAfterRun)
   \<and> DomainIsActive (libvirt memVirter) \<lparr>DomName = ''vm1'', DomID = 1\<rparr> memAfterRun =
       (Inr 1, memAfterRun)
   \<and> (1 :: 32 word) \<noteq> 0
   \<and> VMCommit memVirter ''vm1'' False 5 (start memAfterRun []) =
       (Some (Inl (Errorf ''cannot commit a running VM'')),
        \<lparr>backend = memAfterRun,
         trace = [CDomainLookupByName ''vm1'',
                  CDomainIsActive \<lparr>DomName = ''vm1'', DomID = 1\<rparr>],
         pending = []\<rparr>)"
proof -
  have look: "DomainLookupByName (libvirt memVirter) ''vm1'' (backend (start memAfterRun [])) =
     (Inr \<lparr>DomName = ''vm1'', DomID = 1\<rparr>, memAfterRun)"
    by (simp add: mem_defs host_defs)
  have act: "DomainIsActive (libvirt memVirter) \<lparr>DomName = ''vm1'', DomID = 1\<rparr> memAfterRun =
       (Inr 1, memAfterRun)"
    by (simp add: mem_defs host_defs)
  have nz: "(1 :: 32 word) \<noteq> 0" by simp
  from commit_running_refused [OF look act nz, of 5] look act show ?thesis
    by (simp add: start_def)
qed

text \<open>
  C9. When the lookup of the domain fails, with whatever error and so also with the
  not-found error that \<open>Rm\<close> tolerates, \<open>VMCommit\<close> returns that error wrapped in
  ``could not get domain'', with and without shutdown. The lookup is the only call it has
  issued: none of the teardown steps is performed.
\<close>

theorem commit_missing_domain:
  assumes "DomainLookupByName (libvirt v) vmName (backend w) = (Inl err, s')"
  shows "VMCommit v vmName shutdown shutdownTimeout w =
           (Some (Inl (Wrapf ''could not get domain'' err)),
            w\<lparr>backend := s', trace := trace w @ [CDomainLookupByName vmName]\<rparr>)"
  using assms by (simp add: VMCommit_def issue_def)

theorem commit_missing_domain_witness:
  "DomainLookupByName (libvirt memVirter) ''ghost'' (backend (start memHost [])) =
     (Inl (LibvirtError errNoDomain), memHost)
   \<and> VMCommit memVirter ''ghost'' True 5 (start memHost []) =
       (Some (Inl (Wrapf ''could not get domain'' (LibvirtError errNoDomain))),
        \<lparr>backend = memHost, trace = [CDomainLookupByName ''ghost''], pending = []\<rparr>)
   \<and> VMCommit memVirter ''ghost'' False 5 (start memHost []) =
       (Some (Inl (Wrapf ''could not get domain'' (LibvirtError errNoDomain))),
        \<lparr>backend = memHost, trace = [CDomainLookupByName ''ghost''], pending = []\<rparr>)"
proof -
  have look: "DomainLookupByName (libvirt memVirter) ''ghost'' (backend (start memHost [])) =
     (Inl (LibvirtError errNoDomain), memHost)"
    by (simp add: mem_defs host_defs)
  from commit_missing_domain [OF look, of True 5] commit_missing_domain [OF look, of False 5] look
  show ?thesis by (simp add: start_def)
qed

text \<open>
  C10. When the subscription succeeds and the activity query that follows it reports the
  domain inactive, \<open>vmShutdown\<close> returns success for every timeout. It has issued the
  subscription, the activity query and the call that creates the deadline channel, and no
  shutdown request; it has received nothing, so what was to come on the channels is still
  to come; the result is not the timeout error.
\<close>

theorem shutdown_inactive_immediate:
  assumes "LifecycleEvents (libvirt v) (backend w) = (Inr u, s1)"
    and "DomainIsActive (libvirt v) domain s1 = (Inr 0, s2)"
  shows "vmShutdown v shutdownTimeout domain w =
           (Some (Inr ()),
            w\<lparr>backend := s2,
              trace := trace w @ [CLifecycleEvents, CDomainIsActive domain, CAfter shutdownTimeout],
              pending := pending w\<rparr>)"
  using assms by (cases "pending w") (simp_all add: vmShutdown_def issue_def succeed_def)

theorem shutdown_inactive_immediate_witness:
  "LifecycleEvents (libvirt memVirter) (backend (start memTwo [SelTimeout])) = (Inr (), memTwo)
   \<and> DomainIsActive (libvirt memVirter) \<lparr>DomName = ''vm2'', DomID = - 1\<rparr> memTwo =
       (Inr 0, memTwo)
   \<and> vmShutdown memVirter 0 \<lparr>DomName = ''vm2'', DomID = - 1\<rparr> (start memTwo [SelTimeout]) =
       (Some (Inr ()),
        \<lparr>backend = memTwo,
         trace = [CLifecycleEvents, CDomainIsActive \<lparr>DomName = ''vm2'', DomID = - 1\<rparr>, CAfter 0],
         pending = [SelTimeout]\<rparr>)"
proof -
  have sub: "LifecycleEvents (libvirt memVirter) (backend (start memTwo [SelTimeout])) =
      (Inr (), memTwo)"
    by (simp add: mem_defs host_defs)
  have act: "DomainIsActive (libvirt memVirter) \<lparr>DomName = ''vm2'', DomID = - 1\<rparr> memTwo =
       (Inr 0, memTwo)"
    by (simp add: mem_defs host_defs)
  from shutdown_inactive_immediate [OF sub act, of 0] sub act show ?thesis
    by (simp add: start_def)
qed

text \<open>
  C4. The steps of the shutdown monitor. In every execution of \<open>vmShutdown\<close> the
  subscription to the lifecycle events is the first call, and the activity query, if it is
  reached, is the second and is not repeated. When the domain is active the shutdown
  request is issued next, and a refused request ends the call with its error. After an
  accepted request the deadline channel is created and the monitor receives: events that
  are not a stop of this domain are consumed and the wait goes on; a stop of this domain
  ends the call with success; the tick of the deadline ends it with the timeout error; and
  when neither ever arrives the call does not return.
\<close>

theorem shutdown_monitor_steps:
  "(vmShutdown v shutdownTimeout domain w = (r, w') \<longrightarrow>
      (\<exists>tr. trace w' = trace w @ CLifecycleEvents # tr
         \<and> (tr = [] \<or> (\<exists>tr'. tr = CDomainIsActive domain # tr'
                          \<and> CLifecycleEvents \<notin> set tr' \<and> CDomainIsActive domain \<notin> set tr'))))
   \<and> (LifecycleEvents (libvirt v) (backend w) = (Inr u, s1)
        \<and> DomainIsActive (libvirt v) domain s1 = (Inr active, s2) \<and> active \<noteq> 0 \<longrightarrow>
        (\<forall>err s3. DomainShutdown (libvirt v) domain s2 = (Inl err, s3) \<longrightarrow>
           vmShutdown v shutdownTimeout domain w =
             (Some (Inl (Wrapf ''could not shut down domain'' err)),
              w\<lparr>backend := s3,
                trace := trace w @ [CLifecycleEvents, CDomainIsActive domain,
                           CDomainShutdown domain]\<rparr>))
        \<and> (\<forall>u' s3 others. DomainShutdown (libvirt v) domain s2 = (Inr u', s3)
             \<and> (\<forall>e \<in> set others. \<not> stoppedEventFor domain e) \<longrightarrow>
             (\<forall>event rest. pending w = map SelEvent others @ SelEvent event # rest
                \<and> stoppedEventFor domain event \<longrightarrow>
                vmShutdown v shutdownTimeout domain w =
                  (Some (Inr ()),
                   w\<lparr>backend := s3,
                     trace := trace w @ [CLifecycleEvents, CDomainIsActive domain,
                                CDomainShutdown domain, CAfter shutdownTimeout]
                              @ map CRecvEvent others @ [CRecvEvent event],
                     pending := rest\<rparr>))
             \<and> (\<forall>rest. pending w = map SelEvent others @ SelTimeout # rest \<longrightarrow>
                  vmShutdown v shutdownTimeout domain w =
                    (Some (Inl (Errorf ''timed out waiting for domain to stop'')),
                     w\<lparr>backend := s3,
                       trace := trace w @ [CLifecycleEvents, CDomainIsActive domain,
                                  CDomainShutdown domain, CAfter shutdownTimeout]
                                @ map CRecvEvent others @ [CRecvTimeout],
                       pending := rest\<rparr>))
             \<and> (pending w = map SelEvent others \<longrightarrow>
                  vmShutdown v shutdownTimeout domain w =
                    (None,
                     w\<lparr>backend := s3,
                       trace := trace w @ [CLifecycleEvents, CDomainIsActive domain,
                                  CDomainShutdown domain, CAfter shutdownTimeout]
                                @ map CRecvEvent others,
                       pending := []\<rparr>))))"
proof (intro conjI impI allI; (elim conjE)?)
  assume "vmShutdown v shutdownTimeout domain w = (r, w')"
  then show "\<exists>tr. trace w' = trace w @ CLifecycleEvents # tr
         \<and> (tr = [] \<or> (\<exists>tr'. tr = CDomainIsActive domain # tr'
                          \<and> CLifecycleEvents \<notin> set tr' \<and> CDomainIsActive domain \<notin> set tr'))"
    by (rule vmShutdown_subscribes_first)
next
  fix err s3
  assume "LifecycleEvents (libvirt v) (backend w) = (Inr u, s1)"
    and "DomainIsActive (libvirt v) domain s1 = (Inr active, s2)" and "active \<noteq> 0"
    and "DomainShutdown (libvirt v) domain s2 = (Inl err, s3)"
  then show "vmShutdown v shutdownTimeout domain w =
             (Some (Inl (Wrapf ''could not shut down domain'' err)),
              w\<lparr>backend := s3,
                trace := trace w @ [CLifecycleEvents, CDomainIsActive domain,
                           CDomainShutdown domain]\<rparr>)"
    by (simp add: vmShutdown_def issue_def attempt_def)
next
  fix u' s3 others event rest
  assume "LifecycleEvents (libvirt v) (backend w) = (Inr u, s1)"
    and "DomainIsActive (libvirt v) domain s1 = (Inr active, s2)" and "active \<noteq> 0"
    and "DomainShutdown (libvirt v) domain s2 = (Inr u', s3)"
    and "\<forall>e \<in> set others. \<not> stoppedEventFor domain e"
    and "pending w = map SelEvent others @ SelEvent event # rest"
    and "stoppedEventFor domain event"
  then show "vmShutdown v shutdownTimeout domain w =
                  (Some (Inr ()),
                   w\<lparr>backend := s3,
                     trace := trace w @ [CLifecycleEvents, CDomainIsActive domain,
                                CDomainShutdown domain, CAfter shutdownTimeout]
                              @ map CRecvEvent others @ [CRecvEvent event],
                     pending := rest\<rparr>)"
    by (simp add: vmShutdown_active waitStopped_stopped)
next
  fix u' s3 others rest
  assume "LifecycleEvents (libvirt v) (backend w) = (Inr u, s1)"
    and "DomainIsActive (libvirt v) domain s1 = (Inr active, s2)" and "active \<noteq> 0"
    and "DomainShutdown (libvirt v) domain s2 = (Inr u', s3)"
    and "\<forall>e \<in> set others. \<not> stoppedEventFor domain e"
    and "pending w = map SelEvent others @ SelTimeout # rest"
  then show "vmShutdown v shutdownTimeout domain w =
                    (Some (Inl (Errorf ''timed out waiting for domain to stop'')),
                     w\<lparr>backend := s3,
                       trace := trace w @ [CLifecycleEvents, CDomainIsActive domain,
                                  CDomainShutdown domain, CAfter shutdownTimeout]
                                @ map CRecvEvent others @ [CRecvTimeout],
                       pending := rest\<rparr>)"
    by (simp add: vmShutdown_active waitStopped_timeout)
next
  fix u' s3 others
  assume "LifecycleEvents (libvirt v) (backend w) = (Inr u, s1)"
    and "DomainIsActive (libvirt v) domain s1 = (Inr active, s2)" and "active \<noteq> 0"
    and "DomainShutdown (libvirt v) domain s2 = (Inr u', s3)"
    and "\<forall>e \<in> set others. \<not> stoppedEventFor domain e"
    and "pending w = map SelEvent others"
  then show "vmShutdown v shutdownTimeout domain w =
                    (None,
                     w\<lparr>backend := s3,
                       trace := trace w @ [CLifecycleEvents, CDomainIsActive domain,
                                  CDomainShutdown domain, CAfter shutdownTimeout]
                                @ map CRecvEvent others,
                       pending := []\<rparr>)"
    by (simp add: vmShutdown_active waitStopped_starved)
qed

theorem shutdown_monitor_steps_witness:
  "vmShutdown memVirter 5 \<lparr>DomName = ''vm1'', DomID = 1\<rparr>
     (start memAfterRun
        [SelEvent \<lparr>Dom = \<lparr>DomName = ''vm2'', DomID = 2\<rparr>, Event = 5, Detail = 0\<rparr>,
         SelEvent \<lparr>Dom = \<lparr>DomName = ''vm1'', DomID = 1\<rparr>, Event = 2, Detail = 0\<rparr>,
         SelEvent \<lparr>Dom = \<lparr>DomName = ''vm1'', DomID = 1\<rparr>, Event = 5, Detail = 0\<rparr>,
         SelTimeout]) =
     (Some (Inr ()),
      \<lparr>backend = memAfterRun,
       trace = [CLifecycleEvents, CDomainIsActive \<lparr>DomName = ''vm1'', DomID = 1\<rparr>,
                CDomainShutdown \<lparr>DomName = ''vm1'', DomID = 1\<rparr>, CAfter 5,
                CRecvEvent \<lparr>Dom = \<lparr>DomName = ''vm2'', DomID = 2\<rparr>, Event = 5, Detail = 0\<rparr>,
                CRecvEvent \<lparr>Dom = \<lparr>DomName = ''vm1'', DomID = 1\<rparr>, Event = 2, Detail = 0\<rparr>,
                CRecvEvent \<lparr>Dom = \<lparr>DomName = ''vm1'', DomID = 1\<rparr>, Event = 5, Detail = 0\<rparr>],
       pending = [SelTimeout]\<rparr>)
   \<and> vmShutdown memVirter 5 \<lparr>DomName = ''vm1'', DomID = 1\<rparr>
       (start memAfterRun
          [SelEvent \<lparr>Dom = \<lparr>DomName = ''vm2'', DomID = 2\<rparr>, Event = 5, Detail = 0\<rparr>,
           SelTimeout,
           SelEvent \<lparr>Dom = \<lparr>DomName = ''vm1'', DomID = 1\<rparr>, Event = 5, Detail = 0\<rparr>]) =
     (Some (Inl (Errorf ''timed out waiting for domain to stop'')),
      \<lparr>backend = memAfterRun,
       trace = [CLifecycleEvents, CDomainIsActive \<lparr>DomName = ''vm1'', DomID = 1\<rparr>,
                CDomainShutdown \<lparr>DomName = ''vm1'', DomID = 1\<rparr>, CAfter 5,
                CRecvEvent \<lparr>Dom = \<lparr>DomName = ''vm2'', DomID = 2\<rparr>, Event = 5, Detail = 0\<rparr>,
                CRecvTimeout],
       pending = [SelEvent \<lparr>Dom = \<lparr>DomName = ''vm1'', DomID = 1\<rparr>, Event = 5, Detail = 0\<rparr>]\<rparr>)
   \<and> fst (vmShutdown memVirter 5 \<lparr>DomName = ''vm1'', DomID = 1\<rparr>
       (start memAfterRun
          [SelEvent \<lparr>Dom = \<lparr>DomName = ''vm2'', DomID = 2\<rparr>, Event = 5, Detail = 0\<rparr>])) = None"
proof -
  let ?d = "\<lparr>DomName = ''vm1'', DomID = 1\<rparr>"
  let ?other = "\<lparr>Dom = \<lparr>DomName = ''vm2'', DomID = 2\<rparr>, Event = 5, Detail = 0\<rparr>"
  let ?started = "\<lparr>Dom = ?d, Event = 2, Detail = 0\<rparr>"
  let ?stopped = "\<lparr>Dom = ?d, Event = 5, Detail = 0\<rparr>"
  have sub: "LifecycleEvents (libvirt memVirter) (backend (start memAfterRun xs)) =
      (Inr (), memAfterRun)" for xs
    by (simp add: mem_defs host_defs)
  have act: "DomainIsActive (libvirt memVirter) ?d memAfterRun = (Inr 1, memAfterRun)"
    by (simp add: mem_defs host_defs)
  have req: "DomainShutdown (libvirt memVirter) ?d memAfterRun = (Inr (), memAfterRun)"
    by (simp add: mem_defs host_defs)
  have no1: "\<forall>e \<in> set [?other, ?started]. \<not> stoppedEventFor ?d e"
    by (simp add: stoppedEventFor_def DomainEventStopped_def)
  have no2: "\<forall>e \<in> set [?other]. \<not> stoppedEventFor ?d e"
    by (simp add: stoppedEventFor_def DomainEventStopped_def)
  have yes: "stoppedEventFor ?d ?stopped"
    by (simp add: stoppedEventFor_def DomainEventStopped_def)
  have nz: "(1 :: 32 word) \<noteq> 0" by simp
  note active =
    shutdown_monitor_steps [where v = memVirter and domain = ?d and shutdownTimeout = 5,
      THEN conjunct2, THEN mp, OF conjI [OF sub conjI [OF act nz]], THEN conjunct2]
  note quiet1 = active [THEN spec, THEN spec, THEN spec, THEN mp, OF conjI [OF req no1]]
  note quiet2 = active [THEN spec, THEN spec, THEN spec, THEN mp, OF conjI [OF req no2]]
  have p1: "pending (start memAfterRun [SelEvent ?other, SelEvent ?started, SelEvent ?stopped,
        SelTimeout]) = map SelEvent [?other, ?started] @ SelEvent ?stopped # [SelTimeout]"
    by (simp add: start_def)
  have p2: "pending (start memAfterRun [SelEvent ?other, SelTimeout, SelEvent ?stopped]) =
        map SelEvent [?other] @ SelTimeout # [SelEvent ?stopped]"
    by (simp add: start_def)
  have p3: "pending (start memAfterRun [SelEvent ?other]) = map SelEvent [?other]"
    by (simp add: start_def)
  note a = quiet1 [THEN conjunct1, THEN spec, THEN spec, THEN mp, OF conjI [OF p1 yes]]
  note b = quiet2 [THEN conjunct2, THEN conjunct1, THEN spec, THEN mp, OF p2]
  note c = quiet2 [THEN conjunct2, THEN conjunct2, THEN mp, OF p3]
  from a b c show ?thesis by (simp add: start_def)
qed

section \<open>The resolve phase of the provisioning executor\<close>

lemma findVMIP_calls: "produces (list_all isResolveCall) (findVMIP v network domain)"
  unfolding findVMIP_def
  by (intro produces_intros composable_list_all) simp_all

lemma getIPsLoop_calls: "produces (list_all isResolveCall) (getIPsLoop v network vmNames ips)"
proof (induction vmNames arbitrary: ips)
  case Nil
  show ?case by (simp add: produces_succeed composable_list_all)
next
  case (Cons vmName vmNames)
  show ?case
    unfolding getIPsLoop.simps
    by (intro produces_intros composable_list_all findVMIP_calls Cons.IH) simp_all
qed

lemma getIPs_calls: "produces (list_all isResolveCall) (getIPs v vmNames)"
  unfolding getIPs_def
  by (intro produces_intros composable_list_all getIPsLoop_calls) simp_all

lemma getIPsLoop_length:
  "getIPsLoop v network vmNames ips w = (Inr out, w') \<Longrightarrow> length out = length ips + length vmNames"
proof (induction vmNames arbitrary: ips w)
  case Nil
  then show ?case by (simp add: succeed_def)
next
  case (Cons vmName vmNames)
  from Cons.prems obtain ip w1
    where "getIPsLoop v network vmNames (ips @ [ip]) w1 = (Inr out, w')"
    by (auto simp: attempt_Inr fail_def split: if_splits)
  from Cons.IH [OF this] show ?case by simp
qed

lemma getIPs_length:
  "getIPs v vmNames w = (Inr out, w') \<Longrightarrow> length out = length vmNames"
  by (auto simp: getIPs_def attempt_Inr dest: getIPsLoop_length)

lemma getIPsLoop_append:
  "getIPsLoop v network (xs @ ys) ips =
     attempt (getIPsLoop v network xs ips) (\<lambda>e. e) (getIPsLoop v network ys)"
proof (induction xs arbitrary: ips)
  case Nil
  show ?case by (simp add: attempt_succeed)
next
  case (Cons x xs)
  show ?case
    by (simp add: attempt_assoc attempt_fail Cons.IH if_distrib [of "\<lambda>m. attempt m (\<lambda>e. e) k" for k]
        cong: if_cong)
qed

lemma getIPs_inactive:
  assumes pre: "getIPs v before w = (Inr ips, w1)"
    and look: "DomainLookupByName (libvirt v) vmName (backend w1) = (Inr domain, s2)"
    and act: "DomainIsActive (libvirt v) domain s2 = (Inr 0, s3)"
  shows "getIPs v (before @ vmName # after) w =
           (Inl (Errorf (''cannot exec against VM '' @ [CHR 39] @ vmName @ [CHR 39]
                         @ '' that is not running'')),
            w1\<lparr>backend := s3,
               trace := trace w1 @ [CDomainLookupByName vmName, CDomainIsActive domain]\<rparr>)"
proof -
  from pre obtain network w0
    where net: "issue (CNetworkLookupByName (networkName v))
                  (NetworkLookupByName (libvirt v) (networkName v)) w = (Inr network, w0)"
      and loop: "getIPsLoop v network before [] w0 = (Inr ips, w1)"
    by (auto simp: getIPs_def attempt_Inr)
  have "getIPsLoop v network (vmName # after) ips w1 =
          (Inl (Errorf (''cannot exec against VM '' @ [CHR 39] @ vmName @ [CHR 39]
                        @ '' that is not running'')),
           w1\<lparr>backend := s3,
              trace := trace w1 @ [CDomainLookupByName vmName, CDomainIsActive domain]\<rparr>)"
    using look act by (simp add: attempt_def issue_def fail_def)
  with net loop show ?thesis
    by (simp add: getIPs_def getIPsLoop_append attempt_def)
qed

lemma getIPs_network_fails:
  assumes "NetworkLookupByName (libvirt v) (networkName v) (backend w) = (Inl err, s0)"
  shows "getIPs v vmNames w =
           (Inl (Wrapf ''could not get network'' err),
            w\<lparr>backend := s0, trace := trace w @ [CNetworkLookupByName (networkName v)]\<rparr>)"
  using assms by (simp add: getIPs_def attempt_def issue_def)

lemma getIPs_none:
  assumes "NetworkLookupByName (libvirt v) (networkName v) (backend w) = (Inr network, s0)"
  shows "getIPs v [] w =
           (Inr [], w\<lparr>backend := s0, trace := trace w @ [CNetworkLookupByName (networkName v)]\<rparr>)"
  using assms by (simp add: getIPs_def attempt_def issue_def succeed_def)

lemma getIPs_next:
  assumes net: "NetworkLookupByName (libvirt v) (networkName v) (backend w) = (Inr network, s0)"
    and pre: "getIPs v before w = (Inr ips, w1)"
  shows "getIPs v (before @ vmName # after) w = getIPsLoop v network (vmName # after) ips w1"
proof -
  from net have n: "issue (CNetworkLookupByName (networkName v))
      (NetworkLookupByName (libvirt v) (networkName v)) w =
      (Inr network, w\<lparr>backend := s0, trace := trace w @ [CNetworkLookupByName (networkName v)]\<rparr>)"
    by (simp add: issue_def)
  with pre have "getIPsLoop v network before []
      (w\<lparr>backend := s0, trace := trace w @ [CNetworkLookupByName (networkName v)]\<rparr>) = (Inr ips, w1)"
    by (simp add: getIPs_def attempt_def)
  with n show ?thesis
    by (simp add: getIPs_def getIPsLoop_append attempt_def)
qed

lemma getIPs_lookup_fails:
  assumes "NetworkLookupByName (libvirt v) (networkName v) (backend w) = (Inr network, s0)"
    and "getIPs v before w = (Inr ips, w1)"
    and "DomainLookupByName (libvirt v) vmName (backend w1) = (Inl err, s2)"
  shows "getIPs v (before @ vmName # after) w =
           (Inl (Wrapf (''could not get domain '' @ [CHR 39] @ vmName @ [CHR 39]) err),
            w1\<lparr>backend := s2, trace := trace w1 @ [CDomainLookupByName vmName]\<rparr>)"
  using assms(3) unfolding getIPs_next [OF assms(1,2)]
  by (simp add: attempt_def issue_def)

lemma getIPs_activity_fails:
  assumes "NetworkLookupByName (libvirt v) (networkName v) (backend w) = (Inr network, s0)"
    and "getIPs v before w = (Inr ips, w1)"
    and "DomainLookupByName (libvirt v) vmName (backend w1) = (Inr domain, s2)"
    and "DomainIsActive (libvirt v) domain s2 = (Inl err, s3)"
  shows "getIPs v (before @ vmName # after) w =
           (Inl (Wrapf (''could not check if domain '' @ [CHR 39] @ vmName @ [CHR 39]
                        @ '' is active'') err),
            w1\<lparr>backend := s3,
               trace := trace w1 @ [CDomainLookupByName vmName, CDomainIsActive domain]\<rparr>)"
  using assms(3,4) unfolding getIPs_next [OF assms(1,2)]
  by (simp add: attempt_def issue_def)

lemma getIPs_mac_fails:
  assumes "NetworkLookupByName (libvirt v) (networkName v) (backend w) = (Inr network, s0)"
    and "getIPs v before w = (Inr ips, w1)"
    and "DomainLookupByName (libvirt v) vmName (backend w1) = (Inr domain, s2)"
    and "DomainIsActive (libvirt v) domain s2 = (Inr active, s3)" and "active \<noteq> 0"
    and "getMAC v domain s3 = (Inl err, s4)"
  shows "getIPs v (before @ vmName # after) w =
           (Inl (Wrapf (''could not find IP for VM '' @ [CHR 39] @ vmName @ [CHR 39]) err),
            w1\<lparr>backend := s4,
               trace := trace w1 @ [CDomainLookupByName vmName, CDomainIsActive domain,
                                   CgetMAC domain]\<rparr>)"
  using assms(3-6) unfolding getIPs_next [OF assms(1,2)]
  by (simp add: attempt_def issue_def findVMIP_def)

lemma getIPs_leases_fail:
  assumes "NetworkLookupByName (libvirt v) (networkName v) (backend w) = (Inr network, s0)"
    and "getIPs v before w = (Inr ips, w1)"
    and "DomainLookupByName (libvirt v) vmName (backend w1) = (Inr domain, s2)"
    and "DomainIsActive (libvirt v) domain s2 = (Inr active, s3)" and "active \<noteq> 0"
    and "getMAC v domain s3 = (Inr mac, s4)"
    and "findIPs v network mac s4 = (Inl err, s5)"
  shows "getIPs v (before @ vmName # after) w =
           (Inl (Wrapf (''could not find IP for VM '' @ [CHR 39] @ vmName @ [CHR 39]) err),
            w1\<lparr>backend := s5,
               trace := trace w1 @ [CDomainLookupByName vmName, CDomainIsActive domain,
                                   CgetMAC domain, CfindIPs network mac]\<rparr>)"
  using assms(3-7) unfolding getIPs_next [OF assms(1,2)]
  by (simp add: attempt_def issue_def findVMIP_def)

lemma getIPs_no_lease:
  assumes "NetworkLookupByName (libvirt v) (networkName v) (backend w) = (Inr network, s0)"
    and "getIPs v before w = (Inr ips, w1)"
    and "DomainLookupByName (libvirt v) vmName (backend w1) = (Inr domain, s2)"
    and "DomainIsActive (libvirt v) domain s2 = (Inr active, s3)" and "active \<noteq> 0"
    and "getMAC v domain s3 = (Inr mac, s4)"
    and "findIPs v network mac s4 = (Inr [], s5)"
  shows "getIPs v (before @ vmName # after) w =
           (Inl (Wrapf (''could not find IP for VM '' @ [CHR 39] @ vmName @ [CHR 39])
                   (Errorf ''no IP found for domain'')),
            w1\<lparr>backend := s5,
               trace := trace w1 @ [CDomainLookupByName vmName, CDomainIsActive domain,
                                   CgetMAC domain, CfindIPs network mac]\<rparr>)"
  using assms(3-7) unfolding getIPs_next [OF assms(1,2)]
  by (simp add: attempt_def issue_def findVMIP_def fail_def)

lemma getIPs_resolved:
  assumes "NetworkLookupByName (libvirt v) (networkName v) (backend w) = (Inr network, s0)"
    and "getIPs v before w = (Inr ips, w1)"
    and "DomainLookupByName (libvirt v) vmName (backend w1) = (Inr domain, s2)"
    and "DomainIsActive (libvirt v) domain s2 = (Inr active, s3)" and "active \<noteq> 0"
    and "getMAC v domain s3 = (Inr mac, s4)"
    and "findIPs v network mac s4 = (Inr (ip # others), s5)"
  shows "getIPs v (before @ [vmName]) w =
           (Inr (ips @ [ip]),
            w1\<lparr>backend := s5,
               trace := trace w1 @ [CDomainLookupByName vmName, CDomainIsActive domain,
                                   CgetMAC domain, CfindIPs network mac]\<rparr>)"
  using assms(3-7) unfolding getIPs_next [OF assms(1,2), of vmName "[]"]
  by (simp add: attempt_def issue_def findVMIP_def succeed_def)

lemma exec_after_resolve:
  assumes "getIPs v vmNames w = (Inr ips, w1)"
  shows "VMExecDocker v vmNames config key w =
           issue (CdockerRun config ips key) (dockerRun v config ips key) w1"
    and "ParsePrivateKey v key = Inl err \<Longrightarrow> VMExecShell v vmNames key shellStep w = (Inl err, w1)"
    and "ParsePrivateKey v key = Inr signer \<Longrightarrow>
         VMExecShell v vmNames key shellStep w =
           issue CWait
             (errgroupWait v (map (\<lambda>ip. RunSSHCommand (JoinHostPort ip ''22'') (Script shellStep)
                                          (Env shellStep)) ips))
             (launch (map (\<lambda>ip. RunSSHCommand (JoinHostPort ip ''22'') (Script shellStep)
                                    (Env shellStep)) ips) w1)"
    and "Glob v (Source rsyncStep) = Inr files \<Longrightarrow>
         VMExecRsync v vmNames rsyncStep w =
           issue CWait (errgroupWait v (map (\<lambda>ip. CopierCopy ip files (Dest rsyncStep)) ips))
             (launch (map (\<lambda>ip. CopierCopy ip files (Dest rsyncStep)) ips) w1)"
  using assms
  by (simp_all add: VMExecDocker_def VMExecShell_def VMExecRsync_def getSSHClientConfig_def
      attempt_def pure_def succeed_def Let_def)

lemma rsync_glob_fails:
  "Glob v (Source rsyncStep) = Inl err \<Longrightarrow>
   VMExecRsync v vmNames rsyncStep w = (Inl (Wrapf ''failed to parse glob pattern'' err), w)"
  by (simp add: VMExecRsync_def attempt_def pure_def)


text \<open>
  C7. The resolve phase \<open>getIPs\<close> issues lookups and queries only, and returns one address
  per target when it succeeds. It resolves the targets in order: with the network found and
  the targets before some target resolved, a failed lookup of that target, a failed activity
  query, an inactive domain (the ``not running'' error), a failed reading of its MAC, a failed
  query of the leases and an empty list of leases each make \<open>getIPs\<close> return the
  error of that step, having asked nothing further; an active target with a lease adds the
  first lease to the addresses. A network that is not found is an error before any target.
  Whenever \<open>getIPs\<close> returns an error, the container, shell and file-sync operations
  return that same error in the world \<open>getIPs\<close> left: they have launched nothing. When
  it succeeds, they launch for the addresses it returned and for nothing else; a key that
  does not parse and a glob pattern that does not parse are errors before any launch too.
\<close>

theorem provisioning_resolve_fails_fast:
  "(getIPs v vmNames w = (Inl e, w') \<longrightarrow>
      VMExecDocker v vmNames config key w = (Inl e, w')
      \<and> VMExecShell v vmNames key shellStep w = (Inl e, w')
      \<and> (\<forall>files. Glob v (Source rsyncStep) = Inr files \<longrightarrow>
           VMExecRsync v vmNames rsyncStep w = (Inl e, w')))
   \<and> (getIPs v vmNames w = (r, w'') \<longrightarrow>
        (\<exists>tr. trace w'' = trace w @ tr \<and> list_all isResolveCall tr)
        \<and> (\<forall>ips. r = Inr ips \<longrightarrow> length ips = length vmNames))
   \<and> (getIPs v before w = (Inr ips, w1)
        \<and> DomainLookupByName (libvirt v) vmName (backend w1) = (Inr domain, s2)
        \<and> DomainIsActive (libvirt v) domain s2 = (Inr 0, s3) \<longrightarrow>
        getIPs v (before @ vmName # after) w =
          (Inl (Errorf (''cannot exec against VM '' @ [CHR 39] @ vmName @ [CHR 39]
                        @ '' that is not running'')),
           w1\<lparr>backend := s3,
              trace := trace w1 @ [CDomainLookupByName vmName, CDomainIsActive domain]\<rparr>))
   \<and> (NetworkLookupByName (libvirt v) (networkName v) (backend w) = (Inl nerr, ns) \<longrightarrow>
        getIPs v vmNames w =
          (Inl (Wrapf ''could not get network'' nerr),
           w\<lparr>backend := ns, trace := trace w @ [CNetworkLookupByName (networkName v)]\<rparr>))
   \<and> (NetworkLookupByName (libvirt v) (networkName v) (backend w) = (Inr network, s0) \<longrightarrow>
        getIPs v [] w =
          (Inr [], w\<lparr>backend := s0, trace := trace w @ [CNetworkLookupByName (networkName v)]\<rparr>)
        \<and> (getIPs v before w = (Inr ips, w1) \<longrightarrow>
             (DomainLookupByName (libvirt v) vmName (backend w1) = (Inl lerr, ls) \<longrightarrow>
                getIPs v (before @ vmName # after) w =
                  (Inl (Wrapf (''could not get domain '' @ [CHR 39] @ vmName @ [CHR 39]) lerr),
                   w1\<lparr>backend := ls, trace := trace w1 @ [CDomainLookupByName vmName]\<rparr>))
             \<and> (DomainLookupByName (libvirt v) vmName (backend w1) = (Inr domain, s2) \<longrightarrow>
                  (DomainIsActive (libvirt v) domain s2 = (Inl aerr, as) \<longrightarrow>
                     getIPs v (before @ vmName # after) w =
                       (Inl (Wrapf (''could not check if domain '' @ [CHR 39] @ vmName @ [CHR 39]
                                    @ '' is active'') aerr),
                        w1\<lparr>backend := as,
                           trace := trace w1 @ [CDomainLookupByName vmName,
                                               CDomainIsActive domain]\<rparr>))
                  \<and> (DomainIsActive (libvirt v) domain s2 = (Inr active, s3) \<and> active \<noteq> 0 \<longrightarrow>
                       (getMAC v domain s3 = (Inl merr, ms) \<longrightarrow>
                          getIPs v (before @ vmName # after) w =
                            (Inl (Wrapf (''could not find IP for VM '' @ [CHR 39] @ vmName
                                         @ [CHR 39]) merr),
                             w1\<lparr>backend := ms,
                                trace := trace w1 @ [CDomainLookupByName vmName,
                                                    CDomainIsActive domain, CgetMAC domain]\<rparr>))
                       \<and> (getMAC v domain s3 = (Inr mac, s4) \<longrightarrow>
                            (findIPs v network mac s4 = (Inl ferr, fs) \<longrightarrow>
                               getIPs v (before @ vmName # after) w =
                                 (Inl (Wrapf (''could not find IP for VM '' @ [CHR 39] @ vmName
                                              @ [CHR 39]) ferr),
                                  w1\<lparr>backend := fs,
                                     trace := trace w1 @ [CDomainLookupByName vmName,
                                                CDomainIsActive domain, CgetMAC domain,
                                                CfindIPs network mac]\<rparr>))
                            \<and> (findIPs v network mac s4 = (Inr [], es) \<longrightarrow>
                                 getIPs v (before @ vmName # after) w =
                                   (Inl (Wrapf (''could not find IP for VM '' @ [CHR 39] @ vmName
                                                @ [CHR 39])
                                           (Errorf ''no IP found for domain'')),
                                    w1\<lparr>backend := es,
                                       trace := trace w1 @ [CDomainLookupByName vmName,
                                                  CDomainIsActive domain, CgetMAC domain,
                                                  CfindIPs network mac]\<rparr>))
                            \<and> (findIPs v network mac s4 = (Inr (ip # others), s5) \<longrightarrow>
                                 getIPs v (before @ [vmName]) w =
                                   (Inr (ips @ [ip]),
                                    w1\<lparr>backend := s5,
                                       trace := trace w1 @ [CDomainLookupByName vmName,
                                                  CDomainIsActive domain, CgetMAC domain,
                                                  CfindIPs network mac]\<rparr>)))))))
   \<and> (getIPs v vmNames w = (Inr ips, w1) \<longrightarrow>
        VMExecDocker v vmNames config key w =
          issue (CdockerRun config ips key) (dockerRun v config ips key) w1
        \<and> (ParsePrivateKey v key = Inl kerr \<longrightarrow>
             VMExecShell v vmNames key shellStep w = (Inl kerr, w1))
        \<and> (ParsePrivateKey v key = Inr signer \<longrightarrow>
             VMExecShell v vmNames key shellStep w =
               issue CWait
                 (errgroupWait v (map (\<lambda>ip. RunSSHCommand (JoinHostPort ip ''22'')
                                              (Script shellStep) (Env shellStep)) ips))
                 (launch (map (\<lambda>ip. RunSSHCommand (JoinHostPort ip ''22'')
                                        (Script shellStep) (Env shellStep)) ips) w1))
        \<and> (Glob v (Source rsyncStep) = Inr found \<longrightarrow>
             VMExecRsync v vmNames rsyncStep w =
               issue CWait
                 (errgroupWait v (map (\<lambda>ip. CopierCopy ip found (Dest rsyncStep)) ips))
                 (launch (map (\<lambda>ip. CopierCopy ip found (Dest rsyncStep)) ips) w1)))
   \<and> (Glob v (Source rsyncStep) = Inl gerr \<longrightarrow>
        VMExecRsync v vmNames rsyncStep w =
          (Inl (Wrapf ''failed to parse glob pattern'' gerr), w))"
proof -
  have failfast: "getIPs v vmNames w = (Inl e, w') \<longrightarrow>
      VMExecDocker v vmNames config key w = (Inl e, w')
      \<and> VMExecShell v vmNames key shellStep w = (Inl e, w')
      \<and> (\<forall>files. Glob v (Source rsyncStep) = Inr files \<longrightarrow>
           VMExecRsync v vmNames rsyncStep w = (Inl e, w'))"
    by (simp add: VMExecDocker_def VMExecShell_def VMExecRsync_def getSSHClientConfig_def
        attempt_def pure_def)
  have calls: "getIPs v vmNames w = (r, w'') \<longrightarrow>
        (\<exists>tr. trace w'' = trace w @ tr \<and> list_all isResolveCall tr)
        \<and> (\<forall>ips. r = Inr ips \<longrightarrow> length ips = length vmNames)"
    using producesD [OF getIPs_calls] getIPs_length by blast
  have inactive: "getIPs v before w = (Inr ips, w1)
        \<and> DomainLookupByName (libvirt v) vmName (backend w1) = (Inr domain, s2)
        \<and> DomainIsActive (libvirt v) domain s2 = (Inr 0, s3) \<longrightarrow>
        getIPs v (before @ vmName # after) w =
          (Inl (Errorf (''cannot exec against VM '' @ [CHR 39] @ vmName @ [CHR 39]
                        @ '' that is not running'')),
           w1\<lparr>backend := s3,
              trace := trace w1 @ [CDomainLookupByName vmName, CDomainIsActive domain]\<rparr>)"
    by (intro impI, elim conjE) (rule getIPs_inactive)
  note steps = getIPs_network_fails getIPs_none getIPs_lookup_fails getIPs_activity_fails
    getIPs_mac_fails getIPs_leases_fail getIPs_no_lease getIPs_resolved
    exec_after_resolve rsync_glob_fails
  show ?thesis
    apply (intro conjI [OF failfast] conjI [OF calls] conjI [OF inactive])
    apply (intro conjI impI; (elim conjE)?; (rule steps; assumption))
    done
qed

lemma variant_names:
  "networkName memVirter = ''default''" "networkName memNoActivity = ''default''"
  "networkName memNoMAC = ''default''" "networkName memNoLeases = ''default''"
  "networkName memNoKey = ''default''"
  by (simp_all add: memVirter_def memNoActivity_def memNoMAC_def memNoLeases_def memNoKey_def)

theorem provisioning_resolve_fails_fast_witness:
  "getIPs memVirter [] (start memTwo []) =
     (Inr [], \<lparr>backend = memTwo, trace = [CNetworkLookupByName ''default''], pending = []\<rparr>)
   \<and> getIPs memVirter [''vm1''] (start memTwo []) =
     (Inr [''192.168.122.7''],
      \<lparr>backend = memTwo,
       trace = [CNetworkLookupByName ''default'', CDomainLookupByName ''vm1'',
                CDomainIsActive \<lparr>DomName = ''vm1'', DomID = 1\<rparr>,
                CgetMAC \<lparr>DomName = ''vm1'', DomID = 1\<rparr>,
                CfindIPs \<lparr>NetName = ''default''\<rparr> ''52:54:00:00:00:07''],
       pending = []\<rparr>)
   \<and> getIPs memVirter [''vm1'', ''ghost'', ''vm2''] (start memTwo []) =
     (Inl (Wrapf (''could not get domain '' @ [CHR 39] @ ''ghost'' @ [CHR 39])
             (LibvirtError errNoDomain)),
      \<lparr>backend = memTwo,
       trace = [CNetworkLookupByName ''default'', CDomainLookupByName ''vm1'',
                CDomainIsActive \<lparr>DomName = ''vm1'', DomID = 1\<rparr>,
                CgetMAC \<lparr>DomName = ''vm1'', DomID = 1\<rparr>,
                CfindIPs \<lparr>NetName = ''default''\<rparr> ''52:54:00:00:00:07'',
                CDomainLookupByName ''ghost''],
       pending = []\<rparr>)
   \<and> (\<exists>w'. getIPs memVirter [''vm1'', ''vm2'', ''vm3''] (start memTwo []) =
          (Inl (Errorf ''cannot exec against VM 'vm2' that is not running''), w')
     \<and> VMExecShell memVirter [''vm1'', ''vm2'', ''vm3''] [] \<lparr>Script = ''true'', Env = []\<rparr>
           (start memTwo []) =
          (Inl (Errorf ''cannot exec against VM 'vm2' that is not running''), w')
     \<and> VMExecDocker memVirter [''vm1'', ''vm2'', ''vm3''] ''image'' [] (start memTwo []) =
          (Inl (Errorf ''cannot exec against VM 'vm2' that is not running''), w')
     \<and> VMExecRsync memVirter [''vm1'', ''vm2'', ''vm3''] \<lparr>Source = ''*.txt'', Dest = ''/tmp''\<rparr>
           (start memTwo []) =
          (Inl (Errorf ''cannot exec against VM 'vm2' that is not running''), w')
     \<and> list_all isResolveCall (trace w')
     \<and> trace w' =
          [CNetworkLookupByName ''default'', CDomainLookupByName ''vm1'',
           CDomainIsActive \<lparr>DomName = ''vm1'', DomID = 1\<rparr>,
           CgetMAC \<lparr>DomName = ''vm1'', DomID = 1\<rparr>,
           CfindIPs \<lparr>NetName = ''default''\<rparr> ''52:54:00:00:00:07'',
           CDomainLookupByName ''vm2'',
           CDomainIsActive \<lparr>DomName = ''vm2'', DomID = - 1\<rparr>])
   \<and> getIPs memNoActivity [''vm1''] (start memAfterRun []) =
     (Inl (Wrapf ''could not check if domain 'vm1' is active'' (LibvirtError (errOtherNumber 1))),
      \<lparr>backend = memAfterRun,
       trace = [CNetworkLookupByName ''default'', CDomainLookupByName ''vm1'',
                CDomainIsActive \<lparr>DomName = ''vm1'', DomID = 1\<rparr>],
       pending = []\<rparr>)
   \<and> getIPs memNoMAC [''vm1''] (start memAfterRun []) =
     (Inl (Wrapf (''could not find IP for VM '' @ [CHR 39] @ ''vm1'' @ [CHR 39])
             (ExternalError ''no interface'')),
      \<lparr>backend = memAfterRun,
       trace = [CNetworkLookupByName ''default'', CDomainLookupByName ''vm1'',
                CDomainIsActive \<lparr>DomName = ''vm1'', DomID = 1\<rparr>,
                CgetMAC \<lparr>DomName = ''vm1'', DomID = 1\<rparr>],
       pending = []\<rparr>)
   \<and> getIPs memNoLeases [''vm1''] (start memAfterRun []) =
     (Inl (Wrapf (''could not find IP for VM '' @ [CHR 39] @ ''vm1'' @ [CHR 39])
             (ExternalError ''leases unavailable'')),
      \<lparr>backend = memAfterRun,
       trace = [CNetworkLookupByName ''default'', CDomainLookupByName ''vm1'',
                CDomainIsActive \<lparr>DomName = ''vm1'', DomID = 1\<rparr>,
                CgetMAC \<lparr>DomName = ''vm1'', DomID = 1\<rparr>,
                CfindIPs \<lparr>NetName = ''default''\<rparr> ''52:54:00:00:00:07''],
       pending = []\<rparr>)
   \<and> getIPs memVirter [''vm1''] (start memUnleased []) =
     (Inl (Wrapf (''could not find IP for VM '' @ [CHR 39] @ ''vm1'' @ [CHR 39])
             (Errorf ''no IP found for domain'')),
      \<lparr>backend = memUnleased,
       trace = [CNetworkLookupByName ''default'', CDomainLookupByName ''vm1'',
                CDomainIsActive \<lparr>DomName = ''vm1'', DomID = 1\<rparr>,
                CgetMAC \<lparr>DomName = ''vm1'', DomID = 1\<rparr>,
                CfindIPs \<lparr>NetName = ''default''\<rparr> ''52:54:00:00:00:07''],
       pending = []\<rparr>)
   \<and> getIPs memVirter [''vm1''] (start (memHost\<lparr>memNetworks := {}\<rparr>) []) =
     (Inl (Wrapf ''could not get network'' (LibvirtError (errOtherNumber 43))),
      \<lparr>backend = memHost\<lparr>memNetworks := {}\<rparr>, trace = [CNetworkLookupByName ''default''],
       pending = []\<rparr>)
   \<and> VMExecDocker memVirter [''vm1''] ''image'' [] (start memTwo []) =
     (Inr (),
      \<lparr>backend = memTwo,
       trace = [CNetworkLookupByName ''default'', CDomainLookupByName ''vm1'',
                CDomainIsActive \<lparr>DomName = ''vm1'', DomID = 1\<rparr>,
                CgetMAC \<lparr>DomName = ''vm1'', DomID = 1\<rparr>,
                CfindIPs \<lparr>NetName = ''default''\<rparr> ''52:54:00:00:00:07'',
                CdockerRun ''image'' [''192.168.122.7''] []],
       pending = []\<rparr>)
   \<and> VMExecShell memVirter [''vm1''] [] \<lparr>Script = ''true'', Env = []\<rparr> (start memTwo []) =
     (Inr (),
      \<lparr>backend = memTwo,
       trace = [CNetworkLookupByName ''default'', CDomainLookupByName ''vm1'',
                CDomainIsActive \<lparr>DomName = ''vm1'', DomID = 1\<rparr>,
                CgetMAC \<lparr>DomName = ''vm1'', DomID = 1\<rparr>,
                CfindIPs \<lparr>NetName = ''default''\<rparr> ''52:54:00:00:00:07'',
                CGo (RunSSHCommand ''192.168.122.7:22'' ''true'' []), CWait],
       pending = []\<rparr>)
   \<and> VMExecShell memNoKey [''vm1''] [] \<lparr>Script = ''true'', Env = []\<rparr> (start memTwo []) =
     (Inl (ExternalError ''no key found''),
      \<lparr>backend = memTwo,
       trace = [CNetworkLookupByName ''default'', CDomainLookupByName ''vm1'',
                CDomainIsActive \<lparr>DomName = ''vm1'', DomID = 1\<rparr>,
                CgetMAC \<lparr>DomName = ''vm1'', DomID = 1\<rparr>,
                CfindIPs \<lparr>NetName = ''default''\<rparr> ''52:54:00:00:00:07''],
       pending = []\<rparr>)
   \<and> VMExecRsync memVirter [''vm1''] \<lparr>Source = ''*.txt'', Dest = ''/tmp''\<rparr> (start memTwo []) =
     (Inr (),
      \<lparr>backend = memTwo,
       trace = [CNetworkLookupByName ''default'', CDomainLookupByName ''vm1'',
                CDomainIsActive \<lparr>DomName = ''vm1'', DomID = 1\<rparr>,
                CgetMAC \<lparr>DomName = ''vm1'', DomID = 1\<rparr>,
                CfindIPs \<lparr>NetName = ''default''\<rparr> ''52:54:00:00:00:07'',
                CGo (CopierCopy ''192.168.122.7'' [''*.txt''] ''/tmp''), CWait],
       pending = []\<rparr>)
   \<and> VMExecRsync (memVirter\<lparr>Glob := (\<lambda>pattern. Inl (ExternalError ''bad pattern''))\<rparr>)
         [''vm1''] \<lparr>Source = ''[a'', Dest = ''/tmp''\<rparr> (start memTwo []) =
     (Inl (Wrapf ''failed to parse glob pattern'' (ExternalError ''bad pattern'')),
      start memTwo [])"
proof -
  let ?net = "\<lparr>NetName = ''default''\<rparr>"
  let ?d1 = "\<lparr>DomName = ''vm1'', DomID = 1\<rparr>"
  let ?d2 = "\<lparr>DomName = ''vm2'', DomID = - 1\<rparr>"
  let ?mac = "''52:54:00:00:00:07''"
  note T = provisioning_resolve_fails_fast
  note step = T [THEN conjunct2, THEN conjunct2, THEN conjunct2, THEN conjunct2, THEN conjunct1,
      THEN mp]
  note after = T [THEN conjunct2, THEN conjunct2, THEN conjunct2, THEN conjunct2,
      THEN conjunct2, THEN conjunct1, THEN mp]
  note stepE = T [where before = "[]" and after = "[]", THEN conjunct2, THEN conjunct2,
      THEN conjunct2, THEN conjunct2, THEN conjunct1, THEN mp]
  note stepG = T [where after = "[''vm2'']", THEN conjunct2, THEN conjunct2,
      THEN conjunct2, THEN conjunct2, THEN conjunct1, THEN mp]
  have nz: "(1 :: 32 word) \<noteq> 0" by simp
  have net: "NetworkLookupByName (libvirt memVirter) (networkName memVirter)
      (backend (start s [])) = (Inr ?net, s)" if "''default'' \<in> memNetworks s" for s
    using that by (simp add: mem_defs start_def)
  have net2: "NetworkLookupByName (libvirt memVirter) (networkName memVirter)
      (backend (start memTwo [])) = (Inr ?net, memTwo)"
    by (rule net) (simp add: memTwo_def)
  note s2 = step [OF net2]
  note none = s2 [THEN conjunct1]
  have look1: "DomainLookupByName (libvirt memVirter) ''vm1'' (backend (w\<lparr>backend := memTwo\<rparr>))
      = (Inr ?d1, memTwo)" for w :: "mem world"
    by (simp add: mem_defs host_defs)
  have act1: "DomainIsActive (libvirt memVirter) ?d1 memTwo = (Inr 1, memTwo)"
    by (simp add: mem_defs host_defs)
  have mac1: "getMAC memVirter ?d1 memTwo = (Inr ?mac, memTwo)"
    by (simp add: mem_defs host_defs)
  have ips1: "findIPs memVirter ?net ?mac memTwo = (Inr (''192.168.122.7'' # []), memTwo)"
    by (simp add: mem_defs host_defs)
  have none': "getIPs memVirter [] (start memTwo []) =
      (Inr [], (start memTwo [])\<lparr>trace := trace (start memTwo []) @
          [CNetworkLookupByName (networkName memVirter)], backend := memTwo\<rparr>)"
    using none by simp
  note r1 = s2 [THEN conjunct2, THEN mp, OF none', THEN conjunct2, THEN mp, OF look1,
      THEN conjunct2, THEN mp, OF conjI [OF act1 nz], THEN conjunct2, THEN mp, OF mac1,
      THEN conjunct2, THEN conjunct2, THEN mp, OF ips1]
  have one: "getIPs memVirter [''vm1''] (start memTwo []) =
     (Inr [''192.168.122.7''],
      \<lparr>backend = memTwo,
       trace = [CNetworkLookupByName ''default'', CDomainLookupByName ''vm1'',
                CDomainIsActive ?d1, CgetMAC ?d1, CfindIPs ?net ?mac],
       pending = []\<rparr>)"
    using r1 by (simp add: start_def variant_names)
  have ghost: "DomainLookupByName (libvirt memVirter) ''ghost''
      (backend \<lparr>backend = memTwo,
       trace = [CNetworkLookupByName ''default'', CDomainLookupByName ''vm1'',
                CDomainIsActive ?d1, CgetMAC ?d1, CfindIPs ?net ?mac],
       pending = []\<rparr>) = (Inl (LibvirtError errNoDomain), memTwo)"
    by (simp add: mem_defs host_defs)
  note r2 = stepG [OF net2, THEN conjunct2, THEN mp, OF one, THEN conjunct1,
      THEN mp, OF ghost]
  have look2: "DomainLookupByName (libvirt memVirter) ''vm2''
      (backend \<lparr>backend = memTwo,
       trace = [CNetworkLookupByName ''default'', CDomainLookupByName ''vm1'',
                CDomainIsActive ?d1, CgetMAC ?d1, CfindIPs ?net ?mac],
       pending = []\<rparr>) = (Inr ?d2, memTwo)"
    by (simp add: mem_defs host_defs)
  have act2: "DomainIsActive (libvirt memVirter) ?d2 memTwo = (Inr 0, memTwo)"
    by (simp add: mem_defs host_defs)
  note r3 = T [where after = "[''vm3'']", THEN conjunct2, THEN conjunct2, THEN conjunct1,
      THEN mp, OF conjI [OF one conjI [OF look2 act2]]]
  have r3': "getIPs memVirter [''vm1'', ''vm2'', ''vm3''] (start memTwo []) =
      (Inl (Errorf ''cannot exec against VM 'vm2' that is not running''),
       \<lparr>backend = memTwo,
        trace = [CNetworkLookupByName ''default'', CDomainLookupByName ''vm1'',
                 CDomainIsActive ?d1, CgetMAC ?d1, CfindIPs ?net ?mac,
                 CDomainLookupByName ''vm2'', CDomainIsActive ?d2],
        pending = []\<rparr>)"
    using r3 by simp
  have glob: "Glob memVirter (Source \<lparr>Source = ''*.txt'', Dest = ''/tmp''\<rparr>) = Inr [''*.txt'']"
    by (simp add: memVirter_def)
  note ff = T [where shellStep = "\<lparr>Script = ''true'', Env = []\<rparr>" and key = "[]"
      and config = "''image''" and rsyncStep = "\<lparr>Source = ''*.txt'', Dest = ''/tmp''\<rparr>",
      THEN conjunct1, THEN mp, OF r3']
  note ff3 = ff [THEN conjunct2, THEN conjunct2, THEN spec, THEN mp, OF glob]
  note only = T [THEN conjunct2, THEN conjunct1, THEN mp, OF r3', THEN conjunct1]
  note go = T [where shellStep = "\<lparr>Script = ''true'', Env = []\<rparr>" and key = "[]"
      and config = "''image''" and rsyncStep = "\<lparr>Source = ''*.txt'', Dest = ''/tmp''\<rparr>",
      THEN conjunct2, THEN conjunct2, THEN conjunct2, THEN conjunct2,
      THEN conjunct2, THEN conjunct1, THEN mp, OF one]
  have key: "ParsePrivateKey memVirter [] = Inr ()" by (simp add: memVirter_def)
  note go2 = go [THEN conjunct2, THEN conjunct2, THEN conjunct1, THEN mp, OF key]
  note go3 = go [THEN conjunct2, THEN conjunct2, THEN conjunct2, THEN mp, OF glob]
  have docker: "VMExecDocker memVirter [''vm1''] ''image'' [] (start memTwo []) =
     (Inr (),
      \<lparr>backend = memTwo,
       trace = [CNetworkLookupByName ''default'', CDomainLookupByName ''vm1'',
                CDomainIsActive ?d1, CgetMAC ?d1, CfindIPs ?net ?mac,
                CdockerRun ''image'' [''192.168.122.7''] []],
       pending = []\<rparr>)"
    unfolding go [THEN conjunct1] by (simp add: issue_def memVirter_def)
  have shell: "VMExecShell memVirter [''vm1''] [] \<lparr>Script = ''true'', Env = []\<rparr> (start memTwo []) =
     (Inr (),
      \<lparr>backend = memTwo,
       trace = [CNetworkLookupByName ''default'', CDomainLookupByName ''vm1'',
                CDomainIsActive ?d1, CgetMAC ?d1, CfindIPs ?net ?mac,
                CGo (RunSSHCommand ''192.168.122.7:22'' ''true'' []), CWait],
       pending = []\<rparr>)"
    unfolding go2 by (simp add: issue_def launch_def JoinHostPort_def memVirter_def)
  have rsync: "VMExecRsync memVirter [''vm1''] \<lparr>Source = ''*.txt'', Dest = ''/tmp''\<rparr>
      (start memTwo []) =
     (Inr (),
      \<lparr>backend = memTwo,
       trace = [CNetworkLookupByName ''default'', CDomainLookupByName ''vm1'',
                CDomainIsActive ?d1, CgetMAC ?d1, CfindIPs ?net ?mac,
                CGo (CopierCopy ''192.168.122.7'' [''*.txt''] ''/tmp''), CWait],
       pending = []\<rparr>)"
    unfolding go3 by (simp add: issue_def launch_def memVirter_def)
  have onek: "getIPs memNoKey [''vm1''] (start memTwo []) =
     (Inr [''192.168.122.7''],
      \<lparr>backend = memTwo,
       trace = [CNetworkLookupByName ''default'', CDomainLookupByName ''vm1'',
                CDomainIsActive ?d1, CgetMAC ?d1, CfindIPs ?net ?mac],
       pending = []\<rparr>)"
    by (simp add: engine_defs mem_defs host_defs memNoKey_def)
  have nokey: "ParsePrivateKey memNoKey [] = Inl (ExternalError ''no key found'')"
    by (simp add: memNoKey_def)
  note badkey = T [where shellStep = "\<lparr>Script = ''true'', Env = []\<rparr>",
      THEN conjunct2, THEN conjunct2, THEN conjunct2, THEN conjunct2,
      THEN conjunct2, THEN conjunct1, THEN mp, OF onek,
      THEN conjunct2, THEN conjunct1, THEN mp, OF nokey]
  have badglob: "Glob (memVirter\<lparr>Glob := (\<lambda>pattern. Inl (ExternalError ''bad pattern''))\<rparr>)
      (Source \<lparr>Source = ''[a'', Dest = ''/tmp''\<rparr>) = Inl (ExternalError ''bad pattern'')"
    by simp
  note g = T [where vmNames = "[''vm1'']" and w = "start memTwo []",
      THEN conjunct2, THEN conjunct2, THEN conjunct2, THEN conjunct2,
      THEN conjunct2, THEN conjunct2, THEN mp, OF badglob]
  have nonet: "NetworkLookupByName (libvirt memVirter) (networkName memVirter)
      (backend (start (memHost\<lparr>memNetworks := {}\<rparr>) [])) =
      (Inl (LibvirtError (errOtherNumber 43)), memHost\<lparr>memNetworks := {}\<rparr>)"
    by (simp add: mem_defs host_defs)
  note n0 = T [where vmNames = "[''vm1'']", THEN conjunct2, THEN conjunct2, THEN conjunct2,
      THEN conjunct1, THEN mp, OF nonet]
  have netA: "NetworkLookupByName (libvirt memNoActivity) (networkName memNoActivity)
      (backend (start memAfterRun [])) = (Inr ?net, memAfterRun)"
    by (simp add: memNoActivity_def mem_defs host_defs)
  note sA = step [OF netA]
  have noneA: "getIPs memNoActivity [] (start memAfterRun []) =
      (Inr [], (start memAfterRun [])\<lparr>trace := trace (start memAfterRun []) @
          [CNetworkLookupByName (networkName memNoActivity)], backend := memAfterRun\<rparr>)"
    using sA [THEN conjunct1] by simp
  have lookA: "DomainLookupByName (libvirt memNoActivity) ''vm1''
      (backend (w\<lparr>backend := memAfterRun\<rparr>)) = (Inr ?d1, memAfterRun)" for w :: "mem world"
    by (simp add: memNoActivity_def mem_defs host_defs)
  have actA: "DomainIsActive (libvirt memNoActivity) ?d1 memAfterRun =
      (Inl (LibvirtError (errOtherNumber 1)), memAfterRun)"
    by (simp add: memNoActivity_def mem_defs)
  note rA = stepE [OF netA, THEN conjunct2, THEN mp, OF noneA,
      THEN conjunct2, THEN mp, OF lookA, THEN conjunct1, THEN mp, OF actA]
  have netM: "NetworkLookupByName (libvirt memNoMAC) (networkName memNoMAC)
      (backend (start memAfterRun [])) = (Inr ?net, memAfterRun)"
    by (simp add: memNoMAC_def mem_defs host_defs)
  note sM = step [OF netM]
  have noneM: "getIPs memNoMAC [] (start memAfterRun []) =
      (Inr [], (start memAfterRun [])\<lparr>trace := trace (start memAfterRun []) @
          [CNetworkLookupByName (networkName memNoMAC)], backend := memAfterRun\<rparr>)"
    using sM [THEN conjunct1] by simp
  have lookM: "DomainLookupByName (libvirt memNoMAC) ''vm1''
      (backend (w\<lparr>backend := memAfterRun\<rparr>)) = (Inr ?d1, memAfterRun)" for w :: "mem world"
    by (simp add: memNoMAC_def mem_defs host_defs)
  have actM: "DomainIsActive (libvirt memNoMAC) ?d1 memAfterRun = (Inr 1, memAfterRun)"
    by (simp add: memNoMAC_def mem_defs host_defs)
  have macM: "getMAC memNoMAC ?d1 memAfterRun = (Inl (ExternalError ''no interface''), memAfterRun)"
    by (simp add: memNoMAC_def mem_defs)
  note rM = stepE [OF netM, THEN conjunct2, THEN mp, OF noneM,
      THEN conjunct2, THEN mp, OF lookM, THEN conjunct2, THEN mp, OF conjI [OF actM nz],
      THEN conjunct1, THEN mp, OF macM]
  have netL: "NetworkLookupByName (libvirt memNoLeases) (networkName memNoLeases)
      (backend (start memAfterRun [])) = (Inr ?net, memAfterRun)"
    by (simp add: memNoLeases_def mem_defs host_defs)
  note sL = step [OF netL]
  have noneL: "getIPs memNoLeases [] (start memAfterRun []) =
      (Inr [], (start memAfterRun [])\<lparr>trace := trace (start memAfterRun []) @
          [CNetworkLookupByName (networkName memNoLeases)], backend := memAfterRun\<rparr>)"
    using sL [THEN conjunct1] by simp
  have lookL: "DomainLookupByName (libvirt memNoLeases) ''vm1''
      (backend (w\<lparr>backend := memAfterRun\<rparr>)) = (Inr ?d1, memAfterRun)" for w :: "mem world"
    by (simp add: memNoLeases_def mem_defs host_defs)
  have actL: "DomainIsActive (libvirt memNoLeases) ?d1 memAfterRun = (Inr 1, memAfterRun)"
    by (simp add: memNoLeases_def mem_defs host_defs)
  have macL: "getMAC memNoLeases ?d1 memAfterRun = (Inr ?mac, memAfterRun)"
    by (simp add: memNoLeases_def mem_defs host_defs)
  have ipsL: "findIPs memNoLeases ?net ?mac memAfterRun =
      (Inl (ExternalError ''leases unavailable''), memAfterRun)"
    by (simp add: memNoLeases_def mem_defs)
  note rL = stepE [OF netL, THEN conjunct2, THEN mp, OF noneL,
      THEN conjunct2, THEN mp, OF lookL, THEN conjunct2, THEN mp, OF conjI [OF actL nz],
      THEN conjunct2, THEN mp, OF macL, THEN conjunct1, THEN mp, OF ipsL]
  have netU: "NetworkLookupByName (libvirt memVirter) (networkName memVirter)
      (backend (start memUnleased [])) = (Inr ?net, memUnleased)"
    by (rule net) (simp add: memUnleased_def memAfterRun_def)
  note sU = step [OF netU]
  have noneU: "getIPs memVirter [] (start memUnleased []) =
      (Inr [], (start memUnleased [])\<lparr>trace := trace (start memUnleased []) @
          [CNetworkLookupByName (networkName memVirter)], backend := memUnleased\<rparr>)"
    using sU [THEN conjunct1] by simp
  have lookU: "DomainLookupByName (libvirt memVirter) ''vm1''
      (backend (w\<lparr>backend := memUnleased\<rparr>)) = (Inr ?d1, memUnleased)" for w :: "mem world"
    by (simp add: mem_defs host_defs memUnleased_def)
  have actU: "DomainIsActive (libvirt memVirter) ?d1 memUnleased = (Inr 1, memUnleased)"
    by (simp add: mem_defs host_defs memUnleased_def)
  have macU: "getMAC memVirter ?d1 memUnleased = (Inr ?mac, memUnleased)"
    by (simp add: mem_defs host_defs memUnleased_def)
  have ipsU: "findIPs memVirter ?net ?mac memUnleased = (Inr [], memUnleased)"
    by (simp add: mem_defs host_defs memUnleased_def)
  note rU = stepE [OF netU, THEN conjunct2, THEN mp, OF noneU,
      THEN conjunct2, THEN mp, OF lookU, THEN conjunct2, THEN mp, OF conjI [OF actU nz],
      THEN conjunct2, THEN mp, OF macU, THEN conjunct2, THEN conjunct1, THEN mp, OF ipsU]
  from none one r2 r3' ff [THEN conjunct1] ff [THEN conjunct2, THEN conjunct1] ff3 only
    rA rM rL rU n0 docker shell badkey rsync g
  show ?thesis
    by (simp add: start_def variant_names)
qed

section \<open>Teardown: which volumes are touched\<close>












section \<open>Teardown on the in-memory backend\<close>














lemma mem_keeps_other_delete:
  "VolName vol \<noteq> n \<Longrightarrow> memStorageVolDelete vol s = (r, s') \<Longrightarrow> keepsVolume n s s'"
  by (auto simp: mem_defs keepsVolume_def split: option.splits)

lemma mem_projections:
  "DomainLookupByName (libvirt memVirter) = memDomainLookupByName"
  "DomainIsActive (libvirt memVirter) = memDomainIsActive"
  "DomainIsPersistent (libvirt memVirter) = memDomainIsPersistent"
  "DomainDestroy (libvirt memVirter) = memDomainDestroy"
  "DomainUndefine (libvirt memVirter) = memDomainUndefine"
  "DomainShutdown (libvirt memVirter) = memDomainShutdown"
  "DomainListAllSnapshots (libvirt memVirter) = memDomainListAllSnapshots"
  "DomainSnapshotDelete (libvirt memVirter) = memDomainSnapshotDelete"
  "LifecycleEvents (libvirt memVirter) = memLifecycleEvents"
  "rmDHCPEntry memVirter = memRmDHCPEntry"
  "StoragePoolLookupByName (libvirt memVirter) = memStoragePoolLookupByName"
  "StorageVolLookupByName (libvirt memVirter) = memStorageVolLookupByName"
  "StorageVolDelete (libvirt memVirter) = memStorageVolDelete"
  "storagePoolName memVirter = ''default''"
  by (simp_all add: memVirter_def memLibvirt_def)

lemma mem_volume_absent:
  "memVolumes s n = None \<Longrightarrow> s\<lparr>memVolumes := (memVolumes s)(n := None)\<rparr> = s"
  by (simp add: fun_upd_idem)

lemma mem_rmVolume:
  assumes "rmVolume memVirter sp volumeName debugName w = (r, w')"
  shows "r = Inr ()"
    and "backend w' =
           (backend w)\<lparr>memVolumes := (memVolumes (backend w))(volumeName := None)\<rparr>"
  using assms unfolding rmVolume_def mem_projections
  by (auto simp: tolerate_def attempt_def issue_def succeed_def errOf_def
      memStorageVolLookupByName_def memStorageVolDelete_def volHandle_def mem_volume_absent
      split: option.splits)








lemma idle_keeps: "relates (\<lambda>s s'. s' = s) m \<Longrightarrow> m w = (r, w') \<Longrightarrow> keepsVolume n (backend w) (backend w')"
  by (auto simp: relates_def keepsVolume_def)


lemma mem_rmSnapshotsLoop_done:
  assumes "rmSnapshotsLoop memVirter (map (\<lambda>x. \<lparr>SnapName = x, SnapDom = d\<rparr>) xs) w = (Inr u, w')"
    and "memDomains (backend w) (DomName d) = Some e"
    and "set (mdSnapshots e) \<subseteq> set xs"
  shows "backend w' =
           (backend w)\<lparr>memDomains := (memDomains (backend w))
                                      (DomName d \<mapsto> e\<lparr>mdSnapshots := []\<rparr>)\<rparr>"
  using assms
proof (induction xs arbitrary: w e)
  case Nil
  then have "w' = w" and "e\<lparr>mdSnapshots := []\<rparr> = e"
    by (simp_all add: succeed_def)
  with Nil.prems(2) show ?case by (simp add: map_upd_triv)
next
  case (Cons x xs)
  let ?e' = "e\<lparr>mdSnapshots := removeAll x (mdSnapshots e)\<rparr>"
  from Cons.prems(1) obtain y w1
    where del: "issue (CDomainSnapshotDelete \<lparr>SnapName = x, SnapDom = d\<rparr>)
                  (memDomainSnapshotDelete \<lparr>SnapName = x, SnapDom = d\<rparr>) w = (Inr y, w1)"
      and rest: "rmSnapshotsLoop memVirter (map (\<lambda>x. \<lparr>SnapName = x, SnapDom = d\<rparr>) xs) w1
                   = (Inr u, w')"
    by (auto simp: attempt_Inr mem_projections)
  from del Cons.prems(2)
  have b1: "backend w1 = (backend w)\<lparr>memDomains := (memDomains (backend w))(DomName d \<mapsto> ?e')\<rparr>"
    by (auto simp: issue_def memDomainSnapshotDelete_def otherError_def split: if_splits)
  then have d1: "memDomains (backend w1) (DomName d) = Some ?e'" by simp
  from Cons.prems(3) have s1: "set (mdSnapshots ?e') \<subseteq> set xs" by auto
  from Cons.IH [OF rest d1 s1] b1 show ?case by (simp cong: if_cong)
qed

lemma mem_domain_removed:
  assumes run:
    "tolerate (issue (CDomainLookupByName vmName) (DomainLookupByName (libvirt memVirter) vmName))
       errNoDomain (Wrapf ''could not get domain'') (\<lambda>domain.
     attempt (rmSnapshots memVirter domain) (\<lambda>e. e) (\<lambda>_.
     attempt (issue (CDomainIsActive domain) (DomainIsActive (libvirt memVirter) domain))
       (Wrapf ''could not check if domain is active'') (\<lambda>active.
     attempt (issue (CDomainIsPersistent domain) (DomainIsPersistent (libvirt memVirter) domain))
       (Wrapf ''could not check if domain is persistent'') (\<lambda>persistent.
     attempt (issue (CrmDHCPEntry domain) (rmDHCPEntry memVirter domain)) (\<lambda>e. e) (\<lambda>_.
     attempt (if active \<noteq> 0
              then attempt (issue (CDomainDestroy domain) (DomainDestroy (libvirt memVirter) domain))
                     (Wrapf ''could not destroy domain'') (\<lambda>_. succeed ())
              else succeed ()) (\<lambda>e. e) (\<lambda>_.
     if persistent \<noteq> 0
     then attempt (issue (CDomainUndefine domain) (DomainUndefine (libvirt memVirter) domain))
            (Wrapf ''could not undefine domain'') (\<lambda>_. succeed ())
     else succeed ())))))) w = (Inr u, w')"
  shows "memDomains (backend w') vmName = None"
    and "memVolumes (backend w') = memVolumes (backend w)"
    and "memPools (backend w') = memPools (backend w)"
    and "\<And>e. memDomains (backend w) vmName = Some e \<Longrightarrow> memDHCP (backend w') (mdMAC e) = None"
proof -
  have all: "memDomains (backend w') vmName = None
      \<and> memVolumes (backend w') = memVolumes (backend w)
      \<and> memPools (backend w') = memPools (backend w)
      \<and> (\<forall>e. memDomains (backend w) vmName = Some e \<longrightarrow> memDHCP (backend w') (mdMAC e) = None)"
  proof (cases "memDomains (backend w) vmName")
    case None
    with run show ?thesis
      by (auto simp: tolerate_def issue_def errOf_def mem_projections memDomainLookupByName_def)
  next
    case (Some e)
    let ?d = "\<lparr>DomName = vmName, DomID = mdID e\<rparr>"
    let ?w0 = "w\<lparr>trace := trace w @ [CDomainLookupByName vmName]\<rparr>"
    from Some have look:
      "issue (CDomainLookupByName vmName) (DomainLookupByName (libvirt memVirter) vmName) w
         = (Inr ?d, ?w0)"
      by (simp add: issue_def mem_projections memDomainLookupByName_def)
    from run look obtain y wa where
      snaps: "rmSnapshots memVirter ?d ?w0 = (Inr y, wa)"
      and rest:
       "attempt (issue (CDomainIsActive ?d) (DomainIsActive (libvirt memVirter) ?d))
          (Wrapf ''could not check if domain is active'') (\<lambda>active.
        attempt (issue (CDomainIsPersistent ?d) (DomainIsPersistent (libvirt memVirter) ?d))
          (Wrapf ''could not check if domain is persistent'') (\<lambda>persistent.
        attempt (issue (CrmDHCPEntry ?d) (rmDHCPEntry memVirter ?d)) (\<lambda>e. e) (\<lambda>_.
        attempt (if active \<noteq> 0
                 then attempt (issue (CDomainDestroy ?d) (DomainDestroy (libvirt memVirter) ?d))
                        (Wrapf ''could not destroy domain'') (\<lambda>_. succeed ())
                 else succeed ()) (\<lambda>e. e) (\<lambda>_.
        if persistent \<noteq> 0
        then attempt (issue (CDomainUndefine ?d) (DomainUndefine (libvirt memVirter) ?d))
               (Wrapf ''could not undefine domain'') (\<lambda>_. succeed ())
        else succeed ())))) wa = (Inr u, w')"
      by (auto simp: tolerate_def errOf_def attempt_Inr)
    from snaps Some obtain wl where
      loop: "rmSnapshotsLoop memVirter
               (map (\<lambda>x. \<lparr>SnapName = x, SnapDom = ?d\<rparr>) (mdSnapshots e)) wl = (Inr y, wa)"
      and bl: "backend wl = backend w"
      by (auto simp: rmSnapshots_def attempt_Inr issue_def mem_projections
          memDomainListAllSnapshots_def)
    from Some bl have "memDomains (backend wl) (DomName ?d) = Some e" by simp
    from mem_rmSnapshotsLoop_done [OF loop this] bl
    have ba: "backend wa =
        (backend w)\<lparr>memDomains := (memDomains (backend w))
                                   (vmName \<mapsto> e\<lparr>mdSnapshots := []\<rparr>)\<rparr>"
      by simp
    from rest ba Some show ?thesis
      by (cases "mdState e")
        (auto simp: attempt_def issue_def succeed_def mem_projections memDomainIsActive_def
          memDomainIsPersistent_def memRmDHCPEntry_def memDomainDestroy_def
          memDomainUndefine_def otherError_def
          split: if_splits)
  qed
  from all show "memDomains (backend w') vmName = None"
    and "memVolumes (backend w') = memVolumes (backend w)"
    and "memPools (backend w') = memPools (backend w)"
    and "\<And>e. memDomains (backend w) vmName = Some e \<Longrightarrow> memDHCP (backend w') (mdMAC e) = None"
    by blast+
qed

lemma mem_vmRmExceptBoot_done:
  assumes run: "vmRmExceptBoot memVirter sp vmName w = (Inr u, w')"
  shows "memDomains (backend w') vmName = None"
    and "memVolumes (backend w') =
           (memVolumes (backend w))(scratchVolumeName vmName := None,
                                    ciDataVolumeName vmName := None)"
    and "memPools (backend w') = memPools (backend w)"
    and "\<And>e. memDomains (backend w) vmName = Some e \<Longrightarrow> memDHCP (backend w') (mdMAC e) = None"
proof -
  from run obtain y1 w1 y2 w2 where
    dom: "tolerate (issue (CDomainLookupByName vmName) (DomainLookupByName (libvirt memVirter) vmName))
       errNoDomain (Wrapf ''could not get domain'') (\<lambda>domain.
     attempt (rmSnapshots memVirter domain) (\<lambda>e. e) (\<lambda>_.
     attempt (issue (CDomainIsActive domain) (DomainIsActive (libvirt memVirter) domain))
       (Wrapf ''could not check if domain is active'') (\<lambda>active.
     attempt (issue (CDomainIsPersistent domain) (DomainIsPersistent (libvirt memVirter) domain))
       (Wrapf ''could not check if domain is persistent'') (\<lambda>persistent.
     attempt (issue (CrmDHCPEntry domain) (rmDHCPEntry memVirter domain)) (\<lambda>e. e) (\<lambda>_.
     attempt (if active \<noteq> 0
              then attempt (issue (CDomainDestroy domain) (DomainDestroy (libvirt memVirter) domain))
                     (Wrapf ''could not destroy domain'') (\<lambda>_. succeed ())
              else succeed ()) (\<lambda>e. e) (\<lambda>_.
     if persistent \<noteq> 0
     then attempt (issue (CDomainUndefine domain) (DomainUndefine (libvirt memVirter) domain))
            (Wrapf ''could not undefine domain'') (\<lambda>_. succeed ())
     else succeed ())))))) w = (Inr y1, w1)"
    and scr: "rmVolume memVirter sp (scratchVolumeName vmName) ''scratch'' w1 = (Inr y2, w2)"
    and ci: "rmVolume memVirter sp (ciDataVolumeName vmName) ''cloud-init'' w2 = (Inr u, w')"
    unfolding vmRmExceptBoot_def by (auto simp: attempt_Inr succeed_def)
  note d = mem_domain_removed [OF dom]
  note b2 = mem_rmVolume(2) [OF scr]
  note b3 = mem_rmVolume(2) [OF ci]
  from d(1) b2 b3 show "memDomains (backend w') vmName = None" by simp
  from d(2) b2 b3 show "memVolumes (backend w') =
           (memVolumes (backend w))(scratchVolumeName vmName := None,
                                    ciDataVolumeName vmName := None)" by simp
  from d(3) b2 b3 show "memPools (backend w') = memPools (backend w)" by simp
  fix e assume "memDomains (backend w) vmName = Some e"
  from d(4) [OF this] b2 b3 show "memDHCP (backend w') (mdMAC e) = None" by simp
qed




section \<open>Rm\<close>

lemma rmVolume_absent:
  assumes "StorageVolLookupByName (libvirt v) sp volumeName (backend w)
             = (Inl (LibvirtError errNoStorageVol), s1)"
  shows "rmVolume v sp volumeName debugName w =
           (Inr (), w\<lparr>backend := s1, trace := trace w @ [CStorageVolLookupByName sp volumeName]\<rparr>)"
  using assms by (simp add: rmVolume_def tolerate_def issue_def errOf_def)


lemma vmRmExceptBoot_absent:
  assumes "DomainLookupByName (libvirt v) vmName (backend w)
             = (Inl (LibvirtError errNoDomain), s1)"
  shows "vmRmExceptBoot v sp vmName w =
           attempt (rmVolume v sp (scratchVolumeName vmName) ''scratch'') (\<lambda>e. e) (\<lambda>_.
           attempt (rmVolume v sp (ciDataVolumeName vmName) ''cloud-init'') (\<lambda>e. e) (\<lambda>_.
           succeed ()))
             (w\<lparr>backend := s1, trace := trace w @ [CDomainLookupByName vmName]\<rparr>)"
  using assms by (simp add: vmRmExceptBoot_def tolerate_def issue_def errOf_def attempt_def)

lemma VMRm_all_absent:
  assumes pool: "StoragePoolLookupByName (libvirt v) (storagePoolName v) (backend w) = (Inr sp, s1)"
    and dom: "DomainLookupByName (libvirt v) vmName s1 = (Inl (LibvirtError errNoDomain), s2)"
    and scr: "StorageVolLookupByName (libvirt v) sp (scratchVolumeName vmName) s2
                = (Inl (LibvirtError errNoStorageVol), s3)"
    and ci: "StorageVolLookupByName (libvirt v) sp (ciDataVolumeName vmName) s3
                = (Inl (LibvirtError errNoStorageVol), s4)"
    and boot: "StorageVolLookupByName (libvirt v) sp vmName s4
                = (Inl (LibvirtError errNoStorageVol), s5)"
  shows "VMRm v vmName w =
           (Inr (),
            w\<lparr>backend := s5,
              trace := trace w @
                [CStoragePoolLookupByName (storagePoolName v), CDomainLookupByName vmName,
                 CStorageVolLookupByName sp (scratchVolumeName vmName),
                 CStorageVolLookupByName sp (ciDataVolumeName vmName),
                 CStorageVolLookupByName sp vmName]\<rparr>)"
proof -
  let ?w1 = "w\<lparr>backend := s1, trace := trace w @ [CStoragePoolLookupByName (storagePoolName v)]\<rparr>"
  let ?w2 = "?w1\<lparr>backend := s2, trace := trace ?w1 @ [CDomainLookupByName vmName]\<rparr>"
  let ?w3 = "?w2\<lparr>backend := s3,
                  trace := trace ?w2 @ [CStorageVolLookupByName sp (scratchVolumeName vmName)]\<rparr>"
  let ?w4 = "?w3\<lparr>backend := s4,
                  trace := trace ?w3 @ [CStorageVolLookupByName sp (ciDataVolumeName vmName)]\<rparr>"
  have a: "rmVolume v sp (scratchVolumeName vmName) ''scratch'' ?w2 = (Inr (), ?w3)"
    using scr by (intro rmVolume_absent) simp
  have b: "rmVolume v sp (ciDataVolumeName vmName) ''cloud-init'' ?w3 = (Inr (), ?w4)"
    using ci by (intro rmVolume_absent) simp
  have c: "rmVolume v sp vmName ''boot'' ?w4 =
      (Inr (), ?w4\<lparr>backend := s5, trace := trace ?w4 @ [CStorageVolLookupByName sp vmName]\<rparr>)"
    using boot by (intro rmVolume_absent) simp
  have d: "vmRmExceptBoot v sp vmName ?w1 = (Inr (), ?w4)"
    using dom a b by (subst vmRmExceptBoot_absent [where ?s1.0 = s2]) (simp_all add: attempt_def succeed_def)
  from pool d c show ?thesis
    by (simp add: VMRm_def attempt_def issue_def succeed_def)
qed

lemma mem_VMRm_done:
  assumes run: "VMRm memVirter vmName w = (Inr u, w')"
  shows "''default'' \<in> memPools (backend w')"
    and "memDomains (backend w') vmName = None"
    and "memVolumes (backend w') (scratchVolumeName vmName) = None"
    and "memVolumes (backend w') (ciDataVolumeName vmName) = None"
    and "memVolumes (backend w') vmName = None"
proof -
  from run obtain sp w1 y w2 where
    pool: "issue (CStoragePoolLookupByName ''default'') (memStoragePoolLookupByName ''default'') w
             = (Inr sp, w1)"
    and rm: "vmRmExceptBoot memVirter sp vmName w1 = (Inr y, w2)"
    and boot: "rmVolume memVirter sp vmName ''boot'' w2 = (Inr u, w')"
    by (auto simp: VMRm_def attempt_Inr succeed_def mem_projections)
  from pool have p: "''default'' \<in> memPools (backend w)" and b1: "backend w1 = backend w"
    by (auto simp: issue_def memStoragePoolLookupByName_def split: if_splits)
  note d = mem_vmRmExceptBoot_done [OF rm]
  note b3 = mem_rmVolume(2) [OF boot]
  from p b1 d(3) b3 show "''default'' \<in> memPools (backend w')" by simp
  from d(1) b3 show "memDomains (backend w') vmName = None" by simp
  from d(2) b3 show "memVolumes (backend w') (scratchVolumeName vmName) = None"
    and "memVolumes (backend w') (ciDataVolumeName vmName) = None"
    and "memVolumes (backend w') vmName = None"
    by simp_all
qed

lemma mem_VMRm_again:
  assumes run: "VMRm memVirter vmName w = (Inr (), w')"
  shows "VMRm memVirter vmName w' =
           (Inr (),
            w'\<lparr>trace := trace w' @
                [CStoragePoolLookupByName ''default'', CDomainLookupByName vmName,
                 CStorageVolLookupByName \<lparr>PoolName = ''default''\<rparr> (scratchVolumeName vmName),
                 CStorageVolLookupByName \<lparr>PoolName = ''default''\<rparr> (ciDataVolumeName vmName),
                 CStorageVolLookupByName \<lparr>PoolName = ''default''\<rparr> vmName]\<rparr>)"
proof -
  note d = mem_VMRm_done [OF run]
  have "VMRm memVirter vmName w' =
           (Inr (),
            w'\<lparr>backend := backend w',
               trace := trace w' @
                [CStoragePoolLookupByName (storagePoolName memVirter), CDomainLookupByName vmName,
                 CStorageVolLookupByName \<lparr>PoolName = ''default''\<rparr> (scratchVolumeName vmName),
                 CStorageVolLookupByName \<lparr>PoolName = ''default''\<rparr> (ciDataVolumeName vmName),
                 CStorageVolLookupByName \<lparr>PoolName = ''default''\<rparr> vmName]\<rparr>)"
    using d
    by (intro VMRm_all_absent [where ?s1.0 = "backend w'" and ?s2.0 = "backend w'"
          and ?s3.0 = "backend w'" and ?s4.0 = "backend w'"])
      (simp_all add: mem_projections memStoragePoolLookupByName_def memDomainLookupByName_def
        memStorageVolLookupByName_def)
  then show ?thesis by (simp add: mem_projections)
qed

text \<open>
  C2. A lookup of a volume that answers with the not-found error makes \<open>rmVolume\<close> return
  success after that lookup alone. A lookup of the domain that answers with the not-found
  error makes \<open>vmRmExceptBoot\<close> go on with the scratch and the cloud-init volume exactly
  as it does after a completed domain teardown. When the pool is found and the domain and the
  three volumes are reported absent, \<open>VMRm\<close> returns success having issued the five lookups
  only. On the in-memory backend, \<open>VMRm\<close> called again on the world a successful
  \<open>VMRm\<close> of the same name left returns success, issues these five lookups and changes
  nothing.
\<close>

theorem rm_idempotent:
  "(StorageVolLookupByName (libvirt v) sp volumeName (backend w)
      = (Inl (LibvirtError errNoStorageVol), s1) \<longrightarrow>
    rmVolume v sp volumeName debugName w =
      (Inr (), w\<lparr>backend := s1, trace := trace w @ [CStorageVolLookupByName sp volumeName]\<rparr>))
   \<and> (DomainLookupByName (libvirt v) vmName (backend w)
        = (Inl (LibvirtError errNoDomain), s1) \<longrightarrow>
      vmRmExceptBoot v sp vmName w =
        attempt (rmVolume v sp (scratchVolumeName vmName) ''scratch'') (\<lambda>e. e) (\<lambda>_.
        attempt (rmVolume v sp (ciDataVolumeName vmName) ''cloud-init'') (\<lambda>e. e) (\<lambda>_.
        succeed ()))
          (w\<lparr>backend := s1, trace := trace w @ [CDomainLookupByName vmName]\<rparr>))
   \<and> (StoragePoolLookupByName (libvirt v) (storagePoolName v) (backend w) = (Inr sp, s1)
        \<and> DomainLookupByName (libvirt v) vmName s1 = (Inl (LibvirtError errNoDomain), s2)
        \<and> StorageVolLookupByName (libvirt v) sp (scratchVolumeName vmName) s2
            = (Inl (LibvirtError errNoStorageVol), s3)
        \<and> StorageVolLookupByName (libvirt v) sp (ciDataVolumeName vmName) s3
            = (Inl (LibvirtError errNoStorageVol), s4)
        \<and> StorageVolLookupByName (libvirt v) sp vmName s4
            = (Inl (LibvirtError errNoStorageVol), s5) \<longrightarrow>
      VMRm v vmName w =
        (Inr (),
         w\<lparr>backend := s5,
           trace := trace w @
             [CStoragePoolLookupByName (storagePoolName v), CDomainLookupByName vmName,
              CStorageVolLookupByName sp (scratchVolumeName vmName),
              CStorageVolLookupByName sp (ciDataVolumeName vmName),
              CStorageVolLookupByName sp vmName]\<rparr>))
   \<and> (VMRm memVirter vmName m = (Inr (), m') \<longrightarrow>
      VMRm memVirter vmName m' =
        (Inr (),
         m'\<lparr>trace := trace m' @
             [CStoragePoolLookupByName ''default'', CDomainLookupByName vmName,
              CStorageVolLookupByName \<lparr>PoolName = ''default''\<rparr> (scratchVolumeName vmName),
              CStorageVolLookupByName \<lparr>PoolName = ''default''\<rparr> (ciDataVolumeName vmName),
              CStorageVolLookupByName \<lparr>PoolName = ''default''\<rparr> vmName]\<rparr>))"
proof (intro conjI impI)
  assume "StorageVolLookupByName (libvirt v) sp volumeName (backend w)
      = (Inl (LibvirtError errNoStorageVol), s1)"
  then show "rmVolume v sp volumeName debugName w =
      (Inr (), w\<lparr>backend := s1, trace := trace w @ [CStorageVolLookupByName sp volumeName]\<rparr>)"
    by (rule rmVolume_absent)
next
  assume "DomainLookupByName (libvirt v) vmName (backend w)
        = (Inl (LibvirtError errNoDomain), s1)"
  then show "vmRmExceptBoot v sp vmName w =
        attempt (rmVolume v sp (scratchVolumeName vmName) ''scratch'') (\<lambda>e. e) (\<lambda>_.
        attempt (rmVolume v sp (ciDataVolumeName vmName) ''cloud-init'') (\<lambda>e. e) (\<lambda>_.
        succeed ()))
          (w\<lparr>backend := s1, trace := trace w @ [CDomainLookupByName vmName]\<rparr>)"
    by (rule vmRmExceptBoot_absent)
next
  assume "StoragePoolLookupByName (libvirt v) (storagePoolName v) (backend w) = (Inr sp, s1)
        \<and> DomainLookupByName (libvirt v) vmName s1 = (Inl (LibvirtError errNoDomain), s2)
        \<and> StorageVolLookupByName (libvirt v) sp (scratchVolumeName vmName) s2
            = (Inl (LibvirtError errNoStorageVol), s3)
        \<and> StorageVolLookupByName (libvirt v) sp (ciDataVolumeName vmName) s3
            = (Inl (LibvirtError errNoStorageVol), s4)
        \<and> StorageVolLookupByName (libvirt v) sp vmName s4
            = (Inl (LibvirtError errNoStorageVol), s5)"
  then show "VMRm v vmName w =
        (Inr (),
         w\<lparr>backend := s5,
           trace := trace w @
             [CStoragePoolLookupByName (storagePoolName v), CDomainLookupByName vmName,
              CStorageVolLookupByName sp (scratchVolumeName vmName),
              CStorageVolLookupByName sp (ciDataVolumeName vmName),
              CStorageVolLookupByName sp vmName]\<rparr>)"
    by (elim conjE) (rule VMRm_all_absent)
next
  assume "VMRm memVirter vmName m = (Inr (), m')"
  then show "VMRm memVirter vmName m' =
        (Inr (),
         m'\<lparr>trace := trace m' @
             [CStoragePoolLookupByName ''default'', CDomainLookupByName vmName,
              CStorageVolLookupByName \<lparr>PoolName = ''default''\<rparr> (scratchVolumeName vmName),
              CStorageVolLookupByName \<lparr>PoolName = ''default''\<rparr> (ciDataVolumeName vmName),
              CStorageVolLookupByName \<lparr>PoolName = ''default''\<rparr> vmName]\<rparr>)"
    by (rule mem_VMRm_again)
qed








lemma rm_vm1:
  "fst (VMRm memVirter ''vm1'' (start memAfterRun [])) = Inr ()"
  "trace (snd (VMRm memVirter ''vm1'' (start memAfterRun []))) =
     [CStoragePoolLookupByName ''default'', CDomainLookupByName ''vm1'',
      CDomainListAllSnapshots \<lparr>DomName = ''vm1'', DomID = 1\<rparr>,
      CDomainIsActive \<lparr>DomName = ''vm1'', DomID = 1\<rparr>,
      CDomainIsPersistent \<lparr>DomName = ''vm1'', DomID = 1\<rparr>,
      CrmDHCPEntry \<lparr>DomName = ''vm1'', DomID = 1\<rparr>,
      CDomainDestroy \<lparr>DomName = ''vm1'', DomID = 1\<rparr>,
      CDomainUndefine \<lparr>DomName = ''vm1'', DomID = 1\<rparr>,
      CStorageVolLookupByName \<lparr>PoolName = ''default''\<rparr> ''vm1-scratch'',
      CStorageVolDelete
        \<lparr>VolPool = ''default'', VolName = ''vm1-scratch'', VolKey = ''default/vm1-scratch''\<rparr>,
      CStorageVolLookupByName \<lparr>PoolName = ''default''\<rparr> ''vm1-cidata'',
      CStorageVolDelete
        \<lparr>VolPool = ''default'', VolName = ''vm1-cidata'', VolKey = ''default/vm1-cidata''\<rparr>,
      CStorageVolLookupByName \<lparr>PoolName = ''default''\<rparr> ''vm1'',
      CStorageVolDelete \<lparr>VolPool = ''default'', VolName = ''vm1'', VolKey = ''default/vm1''\<rparr>]"
  "memVolumes (backend (snd (VMRm memVirter ''vm1'' (start memAfterRun [])))) ''vm1'' = None"
  by (simp_all add: engine_defs mem_defs host_defs)




theorem rm_idempotent_witness:
  "rmVolume memVirter \<lparr>PoolName = ''default''\<rparr> ''ghost-scratch'' ''scratch'' (start memHost []) =
     (Inr (),
      \<lparr>backend = memHost,
       trace = [CStorageVolLookupByName \<lparr>PoolName = ''default''\<rparr> ''ghost-scratch''],
       pending = []\<rparr>)
   \<and> vmRmExceptBoot memVirter \<lparr>PoolName = ''default''\<rparr> ''ghost'' (start memHost []) =
     (Inr (),
      \<lparr>backend = memHost,
       trace = [CDomainLookupByName ''ghost'',
                CStorageVolLookupByName \<lparr>PoolName = ''default''\<rparr> ''ghost-scratch'',
                CStorageVolLookupByName \<lparr>PoolName = ''default''\<rparr> ''ghost-cidata''],
       pending = []\<rparr>)
   \<and> VMRm memVirter ''ghost'' (start memHost []) =
     (Inr (),
      \<lparr>backend = memHost,
       trace = [CStoragePoolLookupByName ''default'', CDomainLookupByName ''ghost'',
                CStorageVolLookupByName \<lparr>PoolName = ''default''\<rparr> ''ghost-scratch'',
                CStorageVolLookupByName \<lparr>PoolName = ''default''\<rparr> ''ghost-cidata'',
                CStorageVolLookupByName \<lparr>PoolName = ''default''\<rparr> ''ghost''],
       pending = []\<rparr>)
   \<and> fst (VMRm memVirter ''vm1'' (start memAfterRun [])) = Inr ()
   \<and> VMRm memVirter ''vm1'' (snd (VMRm memVirter ''vm1'' (start memAfterRun []))) =
     (Inr (),
      (snd (VMRm memVirter ''vm1'' (start memAfterRun [])))
        \<lparr>trace := trace (snd (VMRm memVirter ''vm1'' (start memAfterRun []))) @
           [CStoragePoolLookupByName ''default'', CDomainLookupByName ''vm1'',
            CStorageVolLookupByName \<lparr>PoolName = ''default''\<rparr> ''vm1-scratch'',
            CStorageVolLookupByName \<lparr>PoolName = ''default''\<rparr> ''vm1-cidata'',
            CStorageVolLookupByName \<lparr>PoolName = ''default''\<rparr> ''vm1'']\<rparr>)"
proof -
  let ?sp = "\<lparr>PoolName = ''default''\<rparr>"
  let ?nv = "Inl (LibvirtError errNoStorageVol)"
  have pool: "StoragePoolLookupByName (libvirt memVirter) (storagePoolName memVirter)
      (backend (start memHost [])) = (Inr ?sp, memHost)"
    by (simp add: mem_defs host_defs)
  have nodom: "DomainLookupByName (libvirt memVirter) ''ghost'' s
      = (Inl (LibvirtError errNoDomain), memHost)" if "s = memHost" for s
    using that by (simp add: mem_defs host_defs)
  have novol: "StorageVolLookupByName (libvirt memVirter) ?sp n s = (?nv, memHost)"
    if "s = memHost" and "n \<noteq> ''base''" for n s
    using that by (simp add: mem_defs host_defs)
  have b0: "backend (start memHost []) = memHost" by (simp add: start_def)
  have s1: "scratchVolumeName ''ghost'' \<noteq> ''base''" and s2: "ciDataVolumeName ''ghost'' \<noteq> ''base''"
    and s3: "''ghost'' \<noteq> ''base''" and s4: "''ghost-scratch'' \<noteq> ''base''"
    by (simp_all add: scratchVolumeName_def ciDataVolumeName_def)
  note parts = rm_idempotent [where v = memVirter and sp = ?sp]
  note a = parts [where w = "start memHost []" and volumeName = "''ghost-scratch''"
      and debugName = "''scratch''", THEN conjunct1, THEN mp, OF novol [OF b0 s4]]
  note b = parts [where w = "start memHost []" and vmName = "''ghost''",
      THEN conjunct2, THEN conjunct1, THEN mp, OF nodom [OF b0]]
  note c = parts [where w = "start memHost []" and vmName = "''ghost''",
      THEN conjunct2, THEN conjunct2, THEN conjunct1, THEN mp,
      OF conjI [OF pool conjI [OF nodom [OF refl] conjI [OF novol [OF refl s1]
        conjI [OF novol [OF refl s2] novol [OF refl s3]]]]]]
  have first: "fst (VMRm memVirter ''vm1'' (start memAfterRun [])) = Inr ()"
    by (rule rm_vm1(1))
  then have run: "VMRm memVirter ''vm1'' (start memAfterRun [])
      = (Inr (), snd (VMRm memVirter ''vm1'' (start memAfterRun [])))"
    by (simp add: prod_eq_iff)
  note d = parts [where vmName = "''vm1''" and m = "start memAfterRun []",
      THEN conjunct2, THEN conjunct2, THEN conjunct2, THEN mp, OF run]
  have b': "vmRmExceptBoot memVirter ?sp ''ghost'' (start memHost []) =
     (Inr (),
      \<lparr>backend = memHost,
       trace = [CDomainLookupByName ''ghost'',
                CStorageVolLookupByName ?sp ''ghost-scratch'',
                CStorageVolLookupByName ?sp ''ghost-cidata''],
       pending = []\<rparr>)"
    unfolding b by (simp add: engine_defs mem_defs host_defs)
  from a b' c d first show ?thesis
    by (simp add: start_def scratchVolumeName_def ciDataVolumeName_def memVirter_def)
qed

end
